theory Spec2Isabelle
  imports Complex_Main
begin

text \<open>
  A backend that ingests tabular files, infers the type of every column, computes
  summary statistics and forwards them to a text-generation provider. This theory embeds
  the type detector and the file processor (\<open>utils/fileProcessor\<close>), the statistics
  engine (\<open>utils/dataAnalyzer\<close>), the provider gateway (\<open>utils/aiProviders\<close>)
  and the upload and chat controllers, and proves properties of them.
\<close>

section \<open>Values of the tabular data\<close>

text \<open>
  A cell of an uploaded table is a JavaScript scalar: a string, a number, a boolean,
  \<open>null\<close>, or missing (\<open>undefined\<close>). Numbers are modelled as exact rationals
  extended by the three special values of IEEE arithmetic that the program can observe
  (\<open>NaN\<close>, \<open>Infinity\<close>, \<open>-Infinity\<close>); the rounding of finite
  doubles is not modelled, their overflow to an infinity is. Strings are lists of 8-bit
  characters.

  Objects that the program indexes by a column name or by the configured provider name
  (a row, the per-type statistics mappings, the table of providers) are modelled by
  their own string-keyed properties: column names and provider names that collide with
  members of \<open>Object.prototype\<close> are outside the model. The dictionary that
  counts cell texts is keyed by the data itself and is modelled with the inherited
  members.
\<close>

datatype jsnum = NaN | NInf | Fin rat | PInf

datatype jsval = VUndef | VNull | VBool bool | VNum jsnum | VStr string

datatype jserror = TypeError | Error string

type_synonym row = "(string \<times> jsval) list"

definition row_get :: "row \<Rightarrow> string \<Rightarrow> jsval" where
  \<comment> \<open>\<open>row[name]\<close>: a missing key reads as \<open>undefined\<close>.\<close>
  "row_get r k = (case map_of r k of None \<Rightarrow> VUndef | Some v \<Rightarrow> v)"

definition is_empty_val :: "jsval \<Rightarrow> bool" where
  \<comment> \<open>\<open>value === null || value === undefined || value === ''\<close>\<close>
  "is_empty_val v = (v = VNull \<or> v = VUndef \<or> v = VStr [])"

subsection \<open>Arithmetic on numbers\<close>

fun js_neg :: "jsnum \<Rightarrow> jsnum" where
  "js_neg NaN = NaN"
| "js_neg NInf = PInf"
| "js_neg PInf = NInf"
| "js_neg (Fin q) = Fin (- q)"

definition overflow_threshold :: rat where
  \<comment> \<open>a value of this magnitude or more rounds to an infinity: the largest double plus
     half the distance to its successor\<close>
  "overflow_threshold = 2 ^ 1024 - 2 ^ 970"

definition js_fin :: "rat \<Rightarrow> jsnum" where
  \<comment> \<open>the number for an exact result\<close>
  "js_fin q =
     (if overflow_threshold \<le> q then PInf
      else if q \<le> - overflow_threshold then NInf
      else Fin q)"

fun js_add :: "jsnum \<Rightarrow> jsnum \<Rightarrow> jsnum" where
  "js_add NaN _ = NaN"
| "js_add _ NaN = NaN"
| "js_add PInf NInf = NaN"
| "js_add NInf PInf = NaN"
| "js_add PInf _ = PInf"
| "js_add _ PInf = PInf"
| "js_add NInf _ = NInf"
| "js_add _ NInf = NInf"
| "js_add (Fin a) (Fin b) = js_fin (a + b)"

definition js_sub :: "jsnum \<Rightarrow> jsnum \<Rightarrow> jsnum" where
  "js_sub a b = js_add a (js_neg b)"

fun js_div_int :: "jsnum \<Rightarrow> int \<Rightarrow> jsnum" where
  \<comment> \<open>division by an integer (a length, a count, or the literal 2); \<open>x / 0\<close> is
     written out: \<open>0 / 0\<close> is \<open>NaN\<close>, otherwise an infinity.\<close>
  "js_div_int NaN _ = NaN"
| "js_div_int PInf d = (if d < 0 then NInf else PInf)"
| "js_div_int NInf d = (if d < 0 then PInf else NInf)"
| "js_div_int (Fin q) d =
     (if d = 0 then (if q = 0 then NaN else if 0 < q then PInf else NInf)
      else Fin (q / of_int d))"

fun js_lt :: "jsnum \<Rightarrow> jsnum \<Rightarrow> bool" where
  \<comment> \<open>\<open>a < b\<close>\<close>
  "js_lt NaN _ = False"
| "js_lt _ NaN = False"
| "js_lt PInf _ = False"
| "js_lt _ NInf = False"
| "js_lt NInf _ = True"
| "js_lt _ PInf = True"
| "js_lt (Fin a) (Fin b) = (a < b)"

fun js_isNaN :: "jsnum \<Rightarrow> bool" where
  "js_isNaN NaN = True"
| "js_isNaN _ = False"


fun js_pos :: "jsnum \<Rightarrow> bool" where
  \<comment> \<open>\<open>x > 0\<close>\<close>
  "js_pos PInf = True"
| "js_pos (Fin q) = (0 < q)"
| "js_pos _ = False"

subsection \<open>Sorting with a comparator\<close>

text \<open>
  \<open>Array.prototype.sort(cmp)\<close> is a stable sort; an element moves behind another
  one only when the comparator's result is positive (a \<open>NaN\<close> result counts as 0).
  The argument \<open>gt a b\<close> stands for \<open>cmp(a, b) > 0\<close>. For a comparator that is
  consistent every stable sort gives this result. For one that is not (a difference that
  is \<open>NaN\<close> for some pairs only) the order is left to the engine, and the insertion
  order below need not be the one that an engine produces.
\<close>

fun insert_by :: "('a \<Rightarrow> 'a \<Rightarrow> bool) \<Rightarrow> 'a \<Rightarrow> 'a list \<Rightarrow> 'a list" where
  "insert_by gt x [] = [x]"
| "insert_by gt x (y # ys) = (if gt x y then y # insert_by gt x ys else x # y # ys)"

definition js_sort :: "('a \<Rightarrow> 'a \<Rightarrow> bool) \<Rightarrow> 'a list \<Rightarrow> 'a list" where
  "js_sort gt xs = foldr (insert_by gt) xs []"

definition num_gt :: "jsnum \<Rightarrow> jsnum \<Rightarrow> bool" where
  \<comment> \<open>\<open>(a, b) => a - b\<close>, positive\<close>
  "num_gt a b = js_pos (js_sub a b)"

subsection \<open>Strings\<close>

definition is_ws :: "char \<Rightarrow> bool" where
  \<comment> \<open>white space and line terminators among the 8-bit characters\<close>
  "is_ws c = ((of_char c :: nat) \<in> {9, 10, 11, 12, 13, 32, 160})"

definition trimStart :: "string \<Rightarrow> string" where
  "trimStart s = dropWhile is_ws s"

definition trim :: "string \<Rightarrow> string" where
  "trim s = rev (dropWhile is_ws (rev (dropWhile is_ws s)))"

definition lower_char :: "char \<Rightarrow> char" where
  "lower_char c =
     (case map_of (zip ''ABCDEFGHIJKLMNOPQRSTUVWXYZ'' ''abcdefghijklmnopqrstuvwxyz'') c of
        None \<Rightarrow> c | Some d \<Rightarrow> d)"

definition toLowerCase :: "string \<Rightarrow> string" where
  "toLowerCase s = map lower_char s"

definition is_digit :: "char \<Rightarrow> bool" where
  "is_digit c = (48 \<le> (of_char c :: nat) \<and> (of_char c :: nat) \<le> 57)"

definition digit_val :: "char \<Rightarrow> nat" where
  "digit_val c = of_char c - 48"

definition digits_val :: "string \<Rightarrow> nat" where
  "digits_val ds = foldl (\<lambda>a c. 10 * a + digit_val c) 0 ds"

definition starts_with :: "string \<Rightarrow> string \<Rightarrow> bool" where
  "starts_with p s = (take (length p) s = p)"

subsection \<open>\<open>parseFloat\<close> and \<open>Number\<close>\<close>

text \<open>
  \<open>parseFloat\<close> skips leading white space and converts the longest prefix that is
  a decimal literal; \<open>Number\<close> trims on both sides and converts the whole rest
  (the empty string is 0, and the prefixes \<open>0x\<close>, \<open>0o\<close>, \<open>0b\<close> are
  accepted). Both give \<open>NaN\<close> when there is no such literal, and an infinity for a
  literal beyond the range of the doubles.
\<close>

definition parse_exponent :: "string \<Rightarrow> int \<times> string" where
  "parse_exponent s =
     (case s of
        [] \<Rightarrow> (0, s)
      | c # r \<Rightarrow>
          if c = CHR ''e'' \<or> c = CHR ''E'' then
            (let neg = (r \<noteq> [] \<and> hd r = CHR ''-'');
                 r' = (if r \<noteq> [] \<and> (hd r = CHR ''-'' \<or> hd r = CHR ''+'') then tl r else r);
                 ds = takeWhile is_digit r'
             in if ds = [] then (0, s)
                else ((if neg then - int (digits_val ds) else int (digits_val ds)),
                      dropWhile is_digit r'))
          else (0, s))"

definition pow10 :: "int \<Rightarrow> rat" where
  "pow10 e = (if 0 \<le> e then 10 ^ nat e else 1 / 10 ^ nat (- e))"

definition parse_unsigned :: "string \<Rightarrow> (jsnum \<times> string) option" where
  "parse_unsigned s =
     (if starts_with ''Infinity'' s then Some (PInf, drop 8 s)
      else
        (let ip = takeWhile is_digit s;
             r1 = dropWhile is_digit s;
             dot = (r1 \<noteq> [] \<and> hd r1 = CHR ''.'');
             fp = (if dot then takeWhile is_digit (tl r1) else []);
             r2 = (if dot then dropWhile is_digit (tl r1) else r1)
         in if ip = [] \<and> fp = [] then None
            else (case parse_exponent r2 of
                    (e, r3) \<Rightarrow>
                      Some (js_fin (of_nat (digits_val (ip @ fp)) / 10 ^ length fp * pow10 e),
                            r3))))"

definition parse_signed :: "string \<Rightarrow> (jsnum \<times> string) option" where
  "parse_signed s =
     (case s of
        [] \<Rightarrow> None
      | c # r \<Rightarrow>
          if c = CHR ''-'' then map_option (\<lambda>(v, t). (js_neg v, t)) (parse_unsigned r)
          else if c = CHR ''+'' then parse_unsigned r
          else parse_unsigned s)"

definition parseFloat_str :: "string \<Rightarrow> jsnum" where
  "parseFloat_str s =
     (case parse_signed (trimStart s) of None \<Rightarrow> NaN | Some (v, _) \<Rightarrow> v)"

definition radix_digit :: "char \<Rightarrow> nat option" where
  "radix_digit c =
     map_of (zip ''0123456789abcdef'' [0, 1, 2, 3, 4, 5, 6, 7, 8, 9, 10, 11, 12, 13, 14, 15])
       (lower_char c)"

definition parse_radix :: "nat \<Rightarrow> string \<Rightarrow> jsnum" where
  "parse_radix b ds =
     (if ds \<noteq> [] \<and> list_all (\<lambda>c. case radix_digit c of None \<Rightarrow> False | Some d \<Rightarrow> d < b) ds
      then js_fin (of_nat (foldl (\<lambda>a c. b * a + the (radix_digit c)) 0 ds))
      else NaN)"

definition Number_str :: "string \<Rightarrow> jsnum" where
  "Number_str s =
     (let t = trim s in
      if t = [] then Fin 0
      else if starts_with ''0x'' t \<or> starts_with ''0X'' t then parse_radix 16 (drop 2 t)
      else if starts_with ''0o'' t \<or> starts_with ''0O'' t then parse_radix 8 (drop 2 t)
      else if starts_with ''0b'' t \<or> starts_with ''0B'' t then parse_radix 2 (drop 2 t)
      else (case parse_signed t of
              Some (v, []) \<Rightarrow> v
            | _ \<Rightarrow> NaN))"

fun parseFloat :: "jsval \<Rightarrow> jsnum" where
  \<comment> \<open>the argument is converted to a string first: the texts \<open>undefined\<close>,
     \<open>null\<close>, \<open>true\<close> and \<open>false\<close> have no numeric prefix, and the text of
     a number reads back as that number\<close>
  "parseFloat (VStr s) = parseFloat_str s"
| "parseFloat (VNum n) = n"
| "parseFloat _ = NaN"

fun Number :: "jsval \<Rightarrow> jsnum" where
  "Number (VStr s) = Number_str s"
| "Number (VNum n) = n"
| "Number (VBool b) = Fin (if b then 1 else 0)"
| "Number VNull = Fin 0"
| "Number VUndef = NaN"

subsection \<open>The parts left to the JavaScript engine\<close>

text \<open>
  How \<open>Date\<close> reads a string outside the ISO format and how a finite number prints
  are left to the engine; every definition that depends on them takes them as a parameter.
\<close>

record engine =
  dateParse :: "string \<Rightarrow> int option"
    \<comment> \<open>\<open>Date.parse\<close>: the time value in milliseconds, \<open>None\<close> for \<open>NaN\<close>\<close>
  numberToString :: "rat \<Rightarrow> string"
    \<comment> \<open>\<open>String(x)\<close> of a finite number\<close>

fun newDate :: "engine \<Rightarrow> jsval \<Rightarrow> int option" where
  \<comment> \<open>\<open>new Date(v).getTime()\<close>, \<open>None\<close> for an invalid date\<close>
  "newDate eng (VStr s) = dateParse eng s"
| "newDate eng (VNum (Fin q)) =
     (if \<bar>q\<bar> \<le> 8640000000000000 then Some (if 0 \<le> q then \<lfloor>q\<rfloor> else \<lceil>q\<rceil>) else None)"
| "newDate eng (VNum _) = None"
| "newDate eng (VBool b) = Some (if b then 1 else 0)"
| "newDate eng VNull = Some 0"
| "newDate eng VUndef = None"

fun toString :: "engine \<Rightarrow> jsval \<Rightarrow> string" where
  \<comment> \<open>\<open>String(v)\<close>\<close>
  "toString eng (VStr s) = s"
| "toString eng (VNum NaN) = ''NaN''"
| "toString eng (VNum PInf) = ''Infinity''"
| "toString eng (VNum NInf) = ''-Infinity''"
| "toString eng (VNum (Fin q)) = numberToString eng q"
| "toString eng (VBool b) = (if b then ''true'' else ''false'')"
| "toString eng VNull = ''null''"
| "toString eng VUndef = ''undefined''"

section \<open>Type Detector\<close>

datatype coltype = TNumber | TDate | TBoolean | TString

datatype cls = CNumber | CDate | CBoolean | CNone

definition match_shape :: "string \<Rightarrow> string \<Rightarrow> bool" where
  \<comment> \<open>an anchored pattern of \<open>\d\<close> (written \<open>d\<close>) and literal separators\<close>
  "match_shape p s = list_all2 (\<lambda>pc c. if pc = CHR ''d'' then is_digit c else c = pc) p s"

definition datePatterns :: "string list" where
  "datePatterns = [''dddd-dd-dd'', ''dd/dd/dddd'', ''dd-dd-dddd'', ''dddd/dd/dd'']"

fun isValidDate :: "engine \<Rightarrow> jsval \<Rightarrow> bool" where
  \<comment> \<open>the text of a value that is not a string (\<open>NaN\<close>, \<open>true\<close>, \<open>false\<close>)
     matches none of the patterns\<close>
  "isValidDate eng (VStr s) =
     (if \<not> list_ex (\<lambda>p. match_shape p s) datePatterns then False
      else dateParse eng s \<noteq> None)"
| "isValidDate eng _ = False"

definition classify :: "engine \<Rightarrow> jsval \<Rightarrow> jserror + cls" where
  \<comment> \<open>the body of the loop of \<open>detectColumnType\<close> for a value that is not empty;
     \<open>value.toLowerCase()\<close> on a value that is neither a boolean nor a string
     raises a \<open>TypeError\<close>\<close>
  "classify eng v =
     (if \<not> js_isNaN (Number v) \<and> \<not> js_isNaN (parseFloat v) then Inr CNumber
      else if isValidDate eng v then Inr CDate
      else (case v of
              VBool _ \<Rightarrow> Inr CBoolean
            | VStr s \<Rightarrow>
                if toLowerCase s = ''true'' \<or> toLowerCase s = ''false'' then Inr CBoolean
                else Inr CNone
            | _ \<Rightarrow> Inl TypeError))"

fun count_sample ::
  "engine \<Rightarrow> string \<Rightarrow> row list \<Rightarrow> nat \<times> nat \<times> nat \<Rightarrow> jserror + nat \<times> nat \<times> nat" where
  "count_sample eng col [] acc = Inr acc"
| "count_sample eng col (r # rs) (n, d, b) =
     (let v = row_get r col in
      if is_empty_val v then count_sample eng col rs (n, d, b)
      else (case classify eng v of
              Inl e \<Rightarrow> Inl e
            | Inr CNumber \<Rightarrow> count_sample eng col rs (n + 1, d, b)
            | Inr CDate \<Rightarrow> count_sample eng col rs (n, d + 1, b)
            | Inr CBoolean \<Rightarrow> count_sample eng col rs (n, d, b + 1)
            | Inr CNone \<Rightarrow> count_sample eng col rs (n, d, b)))"

definition exceeds_07 :: "nat \<Rightarrow> int \<Rightarrow> bool" where
  \<comment> \<open>\<open>count / totalValid > 0.7\<close>; the quotients of the small counts involved lie far
     from 0.7, so the comparison of doubles agrees with the exact one\<close>
  "exceeds_07 c t = js_lt (Fin (7 / 10)) (js_div_int (Fin (of_nat c)) t)"

definition detectColumnType :: "engine \<Rightarrow> row list \<Rightarrow> string \<Rightarrow> jserror + coltype" where
  "detectColumnType eng data columnName =
     (if data = [] then Inr TString
      else
        (let sampleSize = min 10 (length data);
             sample = take sampleSize data
         in case count_sample eng columnName sample (0, 0, 0) of
              Inl e \<Rightarrow> Inl e
            | Inr (numberCount, dateCount, booleanCount) \<Rightarrow>
                (let totalValid =
                       int sampleSize -
                         (int sampleSize - int numberCount - int dateCount - int booleanCount)
                 in if exceeds_07 numberCount totalValid then Inr TNumber
                    else if exceeds_07 dateCount totalValid then Inr TDate
                    else if exceeds_07 booleanCount totalValid then Inr TBoolean
                    else Inr TString)))"

section \<open>Statistics Engine\<close>

record column =
  name :: string
  ctype :: coltype

record numeric_stats =
  ns_count :: nat
  ns_nullCount :: int
  ns_min :: jsnum
  ns_max :: jsnum
  ns_sum :: jsnum
  ns_mean :: jsnum
  ns_median :: jsnum

text \<open>
  A count in \<open>valueCounts\<close> is a number, or the text that results when the key names
  a member inherited from \<open>Object.prototype\<close>: then \<open>valueCounts[key] || 0\<close> is
  that member, and adding 1 to it concatenates strings.
\<close>

datatype jcount = CNum nat | CJunk

record top_value =
  tv_value :: string
  tv_count :: jcount
  tv_percentage :: "rat option"
    \<comment> \<open>\<open>count / values.length * 100\<close>, \<open>None\<close> for \<open>NaN\<close>; the rendering with
       two decimals is not modelled\<close>

record categorical_stats =
  uniqueValues :: nat
  totalCount :: nat
  cs_nullCount :: int
  topValues :: "top_value list"
  mostFrequent :: "string option"

record date_stats =
  ds_count :: nat
  ds_nullCount :: int
  earliest :: int
  latest :: int
  span :: int

datatype date_entry = NullCountOnly int | DateStats date_stats

record summary_stats =
  rowCount :: nat
  columnCount :: nat
  columns :: "column list"
  numericStats :: "string \<rightharpoonup> numeric_stats"
  categoricalStats :: "string \<rightharpoonup> categorical_stats"
  dateStats :: "string \<rightharpoonup> date_entry"

definition median_of :: "jsnum list \<Rightarrow> jsnum" where
  \<comment> \<open>the median expression, on the sorted values\<close>
  "median_of srt =
     (if length srt mod 2 = 0
      then js_div_int (js_add (srt ! (length srt div 2 - 1)) (srt ! (length srt div 2))) 2
      else srt ! (length srt div 2))"

definition numeric_entry :: "nat \<Rightarrow> jsnum list \<Rightarrow> numeric_stats" where
  \<comment> \<open>the object stored for a number column; \<open>numericValues\<close> is not empty\<close>
  "numeric_entry dataLength numericValues =
     (let srt = js_sort num_gt numericValues in
      \<lparr> ns_count = length numericValues,
        ns_nullCount = int dataLength - int (length numericValues),
        ns_min = srt ! 0,
        ns_max = srt ! (length srt - 1),
        ns_sum = foldl js_add (Fin 0) numericValues,
        ns_mean = js_div_int (foldl js_add (Fin 0) numericValues) (int (length numericValues)),
        ns_median = median_of srt \<rparr>)"

definition proto_members :: "string list" where
  \<comment> \<open>the function-valued members of \<open>Object.prototype\<close>\<close>
  "proto_members =
     [''constructor'', ''hasOwnProperty'', ''isPrototypeOf'', ''propertyIsEnumerable'',
      ''toLocaleString'', ''toString'', ''valueOf'', ''__defineGetter__'',
      ''__defineSetter__'', ''__lookupGetter__'', ''__lookupSetter__'']"

definition count_value :: "(string \<times> jcount) list \<Rightarrow> string \<Rightarrow> (string \<times> jcount) list" where
  \<comment> \<open>\<open>valueCounts[key] = (valueCounts[key] || 0) + 1\<close>, the own properties kept in
     insertion order. An assignment to \<open>__proto__\<close> of a value that is not an object
     is ignored.\<close>
  "count_value vc key =
     (case map_of vc key of
        Some c \<Rightarrow>
          map (\<lambda>(k, c'). if k = key then (k, (case c' of CNum n \<Rightarrow> CNum (n + 1) | CJunk \<Rightarrow> CJunk))
                          else (k, c')) vc
      | None \<Rightarrow>
          if key = ''__proto__'' then vc
          else if key \<in> set proto_members then vc @ [(key, CJunk)]
          else vc @ [(key, CNum 1)])"

definition is_array_index :: "string \<Rightarrow> bool" where
  "is_array_index k =
     (k \<noteq> [] \<and> list_all is_digit k \<and> (k = ''0'' \<or> hd k \<noteq> CHR ''0'') \<and> digits_val k < 4294967295)"

definition entries :: "(string \<times> 'a) list \<Rightarrow> (string \<times> 'a) list" where
  \<comment> \<open>\<open>Object.entries\<close>: the keys that are array indices in ascending order, then
     the other keys in insertion order\<close>
  "entries kvs =
     sort_key (\<lambda>(k, _). digits_val k) (filter (\<lambda>(k, _). is_array_index k) kvs) @
     filter (\<lambda>(k, _). \<not> is_array_index k) kvs"

definition count_gt :: "string \<times> jcount \<Rightarrow> string \<times> jcount \<Rightarrow> bool" where
  \<comment> \<open>\<open>(a, b) => b[1] - a[1]\<close>, positive; with a count that is not a number the
     difference is \<open>NaN\<close>\<close>
  "count_gt a b = (case (snd a, snd b) of (CNum x, CNum y) \<Rightarrow> x < y | _ \<Rightarrow> False)"

definition categorical_entry :: "engine \<Rightarrow> nat \<Rightarrow> jsval list \<Rightarrow> categorical_stats" where
  "categorical_entry eng dataLength values =
     (let valueCounts = foldl (\<lambda>vc val. count_value vc (trim (toString eng val))) [] values;
          sortedCounts = js_sort count_gt (entries valueCounts)
      in \<lparr> uniqueValues = length sortedCounts,
           totalCount = length values,
           cs_nullCount = int dataLength - int (length values),
           topValues =
             map (\<lambda>(v, c).
                    \<lparr> tv_value = v, tv_count = c,
                      tv_percentage =
                        (case c of CNum n \<Rightarrow> Some (of_nat n / of_nat (length values) * 100)
                         | CJunk \<Rightarrow> None) \<rparr>)
                 (take 5 sortedCounts),
           mostFrequent = (case sortedCounts of [] \<Rightarrow> None | e # _ \<Rightarrow> Some (fst e)) \<rparr>)"

definition int_gt :: "int \<Rightarrow> int \<Rightarrow> bool" where
  "int_gt a b = (0 < a - b)"

definition round_div :: "int \<Rightarrow> int \<Rightarrow> int" where
  \<comment> \<open>\<open>Math.round(a / b)\<close> for a positive \<open>b\<close>: the floor of \<open>a / b + 1 / 2\<close>\<close>
  "round_div a b = (2 * a + b) div (2 * b)"

definition date_entry_of :: "nat \<Rightarrow> int list \<Rightarrow> date_stats" where
  \<comment> \<open>the object stored for a date column; \<open>timestamps\<close> is not empty. The earliest
     and latest dates are kept as time values.\<close>
  "date_entry_of dataLength timestamps =
     (let srt = js_sort int_gt timestamps in
      \<lparr> ds_count = length timestamps,
        ds_nullCount = int dataLength - int (length timestamps),
        earliest = srt ! 0,
        latest = srt ! (length srt - 1),
        span = round_div (srt ! (length srt - 1) - srt ! 0) (1000 * 60 * 60 * 24) \<rparr>)"

definition column_values :: "row list \<Rightarrow> string \<Rightarrow> jsval list" where
  \<comment> \<open>\<open>data.map(row => row[name]).filter(...)\<close>\<close>
  "column_values data nm =
     filter (\<lambda>val. \<not> is_empty_val val) (map (\<lambda>r. row_get r nm) data)"

definition numeric_values :: "jsval list \<Rightarrow> jsnum list" where
  \<comment> \<open>\<open>parseFloat\<close> of every value, the \<open>NaN\<close> results dropped\<close>
  "numeric_values values =
     List.map_filter
       (\<lambda>val. let num = parseFloat val in if js_isNaN num then None else Some num) values"

definition date_timestamps :: "engine \<Rightarrow> jsval list \<Rightarrow> int list" where
  \<comment> \<open>the time values of the values that \<open>new Date\<close> reads as a valid date\<close>
  "date_timestamps eng values = List.map_filter (newDate eng) values"

definition process_column ::
  "engine \<Rightarrow> row list \<Rightarrow> column \<Rightarrow> summary_stats \<Rightarrow> jserror + summary_stats" where
  \<comment> \<open>the body of \<open>columns.forEach\<close>. With no value left, the entry goes to
     \<open>stats[`${type}Stats`]\<close>: of the four types only \<open>date\<close> names a mapping
     that exists, and the assignment to a property of \<open>undefined\<close> raises.\<close>
  "process_column eng data col stats =
     (let values = column_values data (name col) in
      if values = [] then
        (case ctype col of
           TDate \<Rightarrow>
             Inr (stats\<lparr>dateStats := (dateStats stats)(name col \<mapsto> NullCountOnly (int (length data)))\<rparr>)
         | _ \<Rightarrow> Inl TypeError)
      else
        (case ctype col of
           TNumber \<Rightarrow>
             (let numericValues = numeric_values values
              in if numericValues \<noteq> [] then
                   Inr (stats\<lparr>numericStats :=
                           (numericStats stats)(name col \<mapsto> numeric_entry (length data) numericValues)\<rparr>)
                 else Inr stats)
         | TString \<Rightarrow>
             Inr (stats\<lparr>categoricalStats :=
                     (categoricalStats stats)(name col \<mapsto> categorical_entry eng (length data) values)\<rparr>)
         | TDate \<Rightarrow>
             (let timestamps = date_timestamps eng values
              in if timestamps \<noteq> [] then
                   Inr (stats\<lparr>dateStats :=
                           (dateStats stats)(name col \<mapsto> DateStats (date_entry_of (length data) timestamps))\<rparr>)
                 else Inr stats)
         | TBoolean \<Rightarrow> Inr stats))"

fun process_columns ::
  "engine \<Rightarrow> row list \<Rightarrow> column list \<Rightarrow> summary_stats \<Rightarrow> jserror + summary_stats" where
  "process_columns eng data [] stats = Inr stats"
| "process_columns eng data (col # cols) stats =
     (case process_column eng data col stats of
        Inl e \<Rightarrow> Inl e
      | Inr stats' \<Rightarrow> process_columns eng data cols stats')"

definition generateSummaryStats ::
  "engine \<Rightarrow> row list \<Rightarrow> column list \<Rightarrow> jserror + summary_stats" where
  "generateSummaryStats eng data cols =
     (if data = [] then
        Inr \<lparr> rowCount = 0, columnCount = length cols, columns = [],
              numericStats = Map.empty, categoricalStats = Map.empty, dateStats = Map.empty \<rparr>
      else
        process_columns eng data cols
          \<lparr> rowCount = length data, columnCount = length cols,
            columns = map (\<lambda>col. \<lparr> name = name col, ctype = ctype col \<rparr>) cols,
            numericStats = Map.empty, categoricalStats = Map.empty, dateStats = Map.empty \<rparr>)"

section \<open>File ingestion\<close>

record upload_file =
  originalname :: string
  filename :: string
  path :: string
  f_size :: nat

record processed =
  p_data :: "row list"
  p_columns :: "column list"
  p_rowCount :: nat

record file_data =
  userId :: string
  fileName :: string
  originalName :: string
  fileType :: string
  fileSize :: nat
  fd_data :: "row list"
  fd_columns :: "column list"
  fd_rowCount :: nat
  isProcessed :: bool

text \<open>
  What the file system and the parsing libraries give for a path is part of the
  environment of a request, as is the answer of the database to a save. The routes run
  behind the authentication middleware, so a request carries its user.
\<close>

datatype source = Missing | Unreadable string | Malformed string | Rows "row list"

text \<open>
  \<open>Unreadable\<close>: the file exists and reading it fails. \<open>Malformed\<close>: the file is
  read and the parser rejects its content.
\<close>

datatype parsing = Died | Rejected jserror | Parsed processed

record upload_env =
  ue_engine :: engine
  read_csv :: "string \<Rightarrow> source"
    \<comment> \<open>the rows that the CSV stream at a path emits, or its error\<close>
  read_sheet :: "string \<Rightarrow> source"
    \<comment> \<open>the first sheet of the workbook at a path, as rows\<close>
  db_accepts :: "file_data \<Rightarrow> bool"
    \<comment> \<open>whether \<open>fileData.save()\<close> succeeds\<close>

definition err_message :: "jserror \<Rightarrow> string" where
  "err_message e = (case e of Error m \<Rightarrow> m | TypeError \<Rightarrow> ''TypeError'')"

definition first_seen :: "string list \<Rightarrow> string list" where
  \<comment> \<open>the elements of a \<open>Set\<close> in insertion order\<close>
  "first_seen ks = foldl (\<lambda>acc k. if k \<in> set acc then acc else acc @ [k]) [] ks"

fun detect_columns :: "engine \<Rightarrow> row list \<Rightarrow> string list \<Rightarrow> jserror + column list" where
  "detect_columns eng rows [] = Inr []"
| "detect_columns eng rows (k # ks) =
     (case detectColumnType eng rows k of
        Inl e \<Rightarrow> Inl e
      | Inr t \<Rightarrow>
          (case detect_columns eng rows ks of
             Inl e \<Rightarrow> Inl e
           | Inr cs \<Rightarrow> Inr (\<lparr> name = k, ctype = t \<rparr> # cs)))"

definition processCSV :: "upload_env \<Rightarrow> string \<Rightarrow> parsing" where
  \<comment> \<open>The \<open>error\<close> listener is attached to what \<open>pipe\<close> returns, the parser: an
     error of the parser rejects the promise, an error of the file stream itself has no
     listener and ends the process. An exception inside the \<open>end\<close> listener is not
     caught either; the cells of a CSV row are strings, on which the detector does not
     raise.\<close>
  "processCSV env filePath =
     (case read_csv env filePath of
        Missing \<Rightarrow> Rejected (Error (''File does not exist: '' @ filePath))
      | Unreadable m \<Rightarrow> Died
      | Malformed m \<Rightarrow> Rejected (Error m)
      | Rows results \<Rightarrow>
          (case detect_columns (ue_engine env) results (first_seen (concat (map (map fst) results))) of
             Inl e \<Rightarrow> Died
           | Inr cs \<Rightarrow> Parsed \<lparr> p_data = results, p_columns = cs, p_rowCount = length results \<rparr>))"

definition processExcel :: "upload_env \<Rightarrow> string \<Rightarrow> parsing" where
  \<comment> \<open>every error is caught and rethrown with the prefix\<close>
  "processExcel env filePath =
     (case (case read_sheet env filePath of
              Missing \<Rightarrow> Inl (Error (''File does not exist: '' @ filePath))
            | Unreadable m \<Rightarrow> Inl (Error m)
            | Malformed m \<Rightarrow> Inl (Error m)
            | Rows jsonData \<Rightarrow>
                if jsonData = [] then Inl (Error ''Excel file is empty or has no data'')
                else (case detect_columns (ue_engine env) jsonData (map fst (hd jsonData)) of
                        Inl e \<Rightarrow> Inl e
                      | Inr cs \<Rightarrow>
                          Inr \<lparr> p_data = jsonData, p_columns = cs, p_rowCount = length jsonData \<rparr>))
      of Inl e \<Rightarrow> Rejected (Error (''Error processing Excel file: '' @ err_message e))
       | Inr pd \<Rightarrow> Parsed pd)"

definition getFileType :: "string \<Rightarrow> string" where
  \<comment> \<open>\<open>fileName.split('.').pop().toLowerCase()\<close>\<close>
  "getFileType fname = toLowerCase (rev (takeWhile (\<lambda>c. c \<noteq> CHR ''.'') (rev fname)))"

definition type_name :: "coltype \<Rightarrow> string" where
  "type_name t =
     (case t of TNumber \<Rightarrow> ''number'' | TDate \<Rightarrow> ''date'' | TBoolean \<Rightarrow> ''boolean''
      | TString \<Rightarrow> ''string'')"

fun validate_columns :: "column list \<Rightarrow> jserror option" where
  \<comment> \<open>the loop over \<open>columnsCopy\<close>: a column whose name or type is an empty string
     is rejected\<close>
  "validate_columns [] = None"
| "validate_columns (col # cols) =
     (if name col = [] \<or> type_name (ctype col) = [] then Some (Error ''Invalid column structure'')
      else validate_columns cols)"

definition parse_upload :: "upload_env \<Rightarrow> upload_file \<Rightarrow> parsing option" where
  \<comment> \<open>the inner \<open>try\<close> block: \<open>None\<close> for a file type that is not supported\<close>
  "parse_upload env f =
     (let fileType = getFileType (originalname f) in
      if fileType = ''csv'' then Some (processCSV env (path f))
      else if fileType \<in> set [''xlsx'', ''xls''] then Some (processExcel env (path f))
      else None)"

record upload_request =
  req_file :: "upload_file option"
  req_user :: string

record upload_result =
  status :: nat
  message :: string
  saved :: "file_data list"
    \<comment> \<open>the records that were written to the database\<close>
  cleaned :: "string list"
    \<comment> \<open>the paths on which \<open>cleanupFile\<close> was called\<close>
  answered :: bool
    \<comment> \<open>whether a response was sent; when the process ended before, there is no
       status and no message (0 and the empty text stand for them)\<close>

definition on_error :: "upload_file \<Rightarrow> upload_result" where
  \<comment> \<open>the outer \<open>catch\<close> block\<close>
  "on_error f =
     \<lparr> status = 500, message = ''Error processing file'', saved = [],
       cleaned = (if path f \<noteq> [] then [path f] else []), answered = True \<rparr>"

definition uploadFile :: "upload_env \<Rightarrow> upload_request \<Rightarrow> upload_result" where
  "uploadFile env req =
     (case req_file req of
        None \<Rightarrow>
          \<lparr> status = 400, message = ''No file uploaded'', saved = [], cleaned = [],
            answered = True \<rparr>
      | Some f \<Rightarrow>
          (case parse_upload env f of
             None \<Rightarrow>
               \<lparr> status = 400, message = ''Unsupported file type'', saved = [], cleaned = [],
                 answered = True \<rparr>
           | Some Died \<Rightarrow>
               \<lparr> status = 0, message = [], saved = [], cleaned = [], answered = False \<rparr>
           | Some (Rejected processError) \<Rightarrow>
               \<lparr> status = 500, message = ''Error processing file: '' @ err_message processError,
                 saved = [], cleaned = [], answered = True \<rparr>
           | Some (Parsed processedData) \<Rightarrow>
               (case validate_columns (p_columns processedData) of
                  Some e \<Rightarrow> on_error f
                | None \<Rightarrow>
                    (let fileData =
                           \<lparr> userId = req_user req, fileName = filename f,
                             originalName = originalname f,
                             fileType = getFileType (originalname f), fileSize = f_size f,
                             fd_data = p_data processedData,
                             fd_columns = p_columns processedData,
                             fd_rowCount = p_rowCount processedData, isProcessed = True \<rparr>
                     in if db_accepts env fileData then
                          \<lparr> status = 201, message = ''File uploaded and processed successfully'',
                            saved = [fileData], cleaned = [path f], answered = True \<rparr>
                        else on_error f))))"

section \<open>AI Provider Gateway\<close>

datatype provider = HuggingFace | Gemini | OpenAI

datatype ai_error = NoProviderConfigured | AllProvidersFailed

record ai_env =
  AI_PROVIDER :: "string option"
  HUGGINGFACE_API_KEY :: "string option"
  GEMINI_API_KEY :: "string option"
  OPENAI_API_KEY :: "string option"
  call :: "provider \<Rightarrow> string + string"
    \<comment> \<open>what the call of a provider gives in this invocation: the error it throws or
       the text it returns\<close>

definition is_set :: "string option \<Rightarrow> bool" where
  \<comment> \<open>an environment variable is truthy when it is set to a string that is not empty\<close>
  "is_set v = (case v of None \<Rightarrow> False | Some s \<Rightarrow> s \<noteq> [])"

definition has_key :: "ai_env \<Rightarrow> provider \<Rightarrow> bool" where
  "has_key env p =
     (case p of HuggingFace \<Rightarrow> is_set (HUGGINGFACE_API_KEY env)
      | Gemini \<Rightarrow> is_set (GEMINI_API_KEY env)
      | OpenAI \<Rightarrow> is_set (OPENAI_API_KEY env))"

definition provider_name :: "provider \<Rightarrow> string" where
  "provider_name p =
     (case p of HuggingFace \<Rightarrow> ''huggingface'' | Gemini \<Rightarrow> ''gemini'' | OpenAI \<Rightarrow> ''openai'')"

text \<open>
  \<open>providers[aiProvider]\<close> reads the object literal with its prototype: besides the
  three own keys, the lower-case names \<open>constructor\<close> and \<open>__proto__\<close> give a
  value, the function \<open>Object\<close> and the object \<open>Object.prototype\<close>. Both are
  truthy, and none of the three key checks applies to them.
\<close>

datatype provider_entry = Call provider | ObjectConstructor | ObjectPrototype

definition providers :: "string \<Rightarrow> provider_entry option" where
  "providers =
     map_of [(''huggingface'', Call HuggingFace), (''gemini'', Call Gemini),
             (''openai'', Call OpenAI), (''constructor'', ObjectConstructor),
             (''__proto__'', ObjectPrototype)]"

definition aiProvider :: "ai_env \<Rightarrow> string" where
  \<comment> \<open>\<open>(process.env.AI_PROVIDER || 'huggingface').toLowerCase()\<close>\<close>
  "aiProvider env =
     toLowerCase (if is_set (AI_PROVIDER env) then the (AI_PROVIDER env) else ''huggingface'')"

definition hasAnyProvider :: "ai_env \<Rightarrow> bool" where
  "hasAnyProvider env =
     (is_set (HUGGINGFACE_API_KEY env) \<or> is_set (GEMINI_API_KEY env) \<or> is_set (OPENAI_API_KEY env))"

text \<open>
  The result of the gateway is paired with the list of the providers that were called,
  in the order of the calls.
\<close>

fun fallback ::
  "ai_env \<Rightarrow> provider list \<Rightarrow> provider list \<Rightarrow> provider list \<times> (ai_error + string)" where
  "fallback env [] calls =
     (calls, Inl (if hasAnyProvider env then AllProvidersFailed else NoProviderConfigured))"
| "fallback env (p # ps) calls =
     (if provider_name p = aiProvider env then fallback env ps calls
      else if has_key env p then
        (case call env p of
           Inr text \<Rightarrow> (calls @ [p], Inr text)
         | Inl e \<Rightarrow> fallback env ps (calls @ [p]))
      else fallback env ps calls)"

definition fallbackOrder :: "provider list" where
  "fallbackOrder = [HuggingFace, Gemini, OpenAI]"

definition generateAIInsights :: "ai_env \<Rightarrow> string \<Rightarrow> provider list \<times> (ai_error + string)" where
  \<comment> \<open>\<open>Object(prompt, systemPrompt)\<close> returns the prompt, wrapped as an object, and
     the call of \<open>Object.prototype\<close>, which is not a function, raises inside the
     \<open>try\<close> block\<close>
  "generateAIInsights env prompt =
     (case providers (aiProvider env) of
        None \<Rightarrow> fallback env fallbackOrder []
      | Some ObjectConstructor \<Rightarrow> ([], Inr prompt)
      | Some ObjectPrototype \<Rightarrow> fallback env fallbackOrder []
      | Some (Call p) \<Rightarrow>
          if \<not> has_key env p then fallback env fallbackOrder []
          else (case call env p of
                  Inr text \<Rightarrow> ([p], Inr text)
                | Inl e \<Rightarrow> fallback env fallbackOrder [p]))"

section \<open>Chat\<close>

record chat_request =
  fileId :: jsval
  question :: jsval
  c_user :: string

record chat_env =
  ce_engine :: engine
  ce_ai :: ai_env
  findOne :: "jsval \<Rightarrow> string \<Rightarrow> jserror + file_data option"
    \<comment> \<open>the stored table with this identity and owner, or the error of the query\<close>
  chat_prompt :: "summary_stats \<Rightarrow> file_data \<Rightarrow> string \<Rightarrow> string"
    \<comment> \<open>the text of the prompt: a fixed template around the formatted statistics, the
       first rows of the table and the trimmed question\<close>

record chat_result =
  c_status :: nat
  c_message :: string
    \<comment> \<open>the message of a failure, the answer of a success\<close>
  provider_calls :: "provider list"

fun truthy :: "jsval \<Rightarrow> bool" where
  "truthy VUndef = False"
| "truthy VNull = False"
| "truthy (VBool b) = b"
| "truthy (VNum n) = (\<not> js_isNaN n \<and> n \<noteq> Fin 0)"
| "truthy (VStr s) = (s \<noteq> [])"

definition ai_error_message :: "ai_error \<Rightarrow> string" where
  "ai_error_message e =
     (case e of
        AllProvidersFailed \<Rightarrow>
          ''All configured AI providers failed. Please check your API keys and try again.''
      | NoProviderConfigured \<Rightarrow>
          ''No AI provider is configured. Please set at least one of: HUGGINGFACE_API_KEY, GEMINI_API_KEY, or OPENAI_API_KEY'')"

definition chat_failed :: chat_result where
  \<comment> \<open>the outer \<open>catch\<close> block\<close>
  "chat_failed =
     \<lparr> c_status = 500, c_message = ''Error processing chat request'', provider_calls = [] \<rparr>"

definition chat :: "chat_env \<Rightarrow> chat_request \<Rightarrow> chat_result" where
  \<comment> \<open>the prompt is built from the statistics and the first rows without raising; the
     outcome of a provider call is given by the environment\<close>
  "chat env req =
     (if \<not> truthy (fileId req) then
        \<lparr> c_status = 400, c_message = ''File ID is required'', provider_calls = [] \<rparr>
      else if \<not> truthy (question req) then
        \<lparr> c_status = 400, c_message = ''Question is required'', provider_calls = [] \<rparr>
      else
        (case question req of
           VStr q \<Rightarrow>
             if trim q = [] then
               \<lparr> c_status = 400, c_message = ''Question is required'', provider_calls = [] \<rparr>
             else if \<not> hasAnyProvider (ce_ai env) then
               \<lparr> c_status = 500,
                 c_message = ''No AI provider is configured. Please set at least one of: HUGGINGFACE_API_KEY, GEMINI_API_KEY, or OPENAI_API_KEY in your environment variables.'',
                 provider_calls = [] \<rparr>
             else
               (case findOne env (fileId req) (c_user req) of
                  Inl e \<Rightarrow> chat_failed
                | Inr None \<Rightarrow>
                    \<lparr> c_status = 404, c_message = ''File not found'', provider_calls = [] \<rparr>
                | Inr (Some fileData) \<Rightarrow>
                    (case generateSummaryStats (ce_engine env) (fd_data fileData) (fd_columns fileData) of
                       Inl e \<Rightarrow> chat_failed
                     | Inr summaryStats \<Rightarrow>
                         (case generateAIInsights (ce_ai env)
                                 (chat_prompt env summaryStats fileData (trim q)) of
                            (calls, Inl aiError) \<Rightarrow>
                              \<lparr> c_status = 500,
                                c_message = ''Error calling AI API: '' @ ai_error_message aiError,
                                provider_calls = calls \<rparr>
                          | (calls, Inr aiResponse) \<Rightarrow>
                              \<lparr> c_status = 200, c_message = aiResponse, provider_calls = calls \<rparr>)))
         | _ \<Rightarrow> chat_failed))"

section \<open>Notions used in the statements\<close>

definition sample_values :: "row list \<Rightarrow> string \<Rightarrow> jsval list" where
  \<comment> \<open>the values of a column in the first ten rows that are not empty\<close>
  "sample_values data columnName =
     filter (\<lambda>v. \<not> is_empty_val v) (map (\<lambda>r. row_get r columnName) (take 10 data))"

definition class_count :: "engine \<Rightarrow> cls \<Rightarrow> jsval list \<Rightarrow> nat" where
  \<comment> \<open>how many of the values the detector puts into a class\<close>
  "class_count eng c vs = length (filter (\<lambda>v. classify eng v = Inr c) vs)"

definition numeric_of :: "jserror + summary_stats \<Rightarrow> string \<Rightarrow> numeric_stats option" where
  \<comment> \<open>\<open>result.numericStats[name]\<close>, \<open>None\<close> when the call raised or there is no entry\<close>
  "numeric_of r nm = (case r of Inl _ \<Rightarrow> None | Inr s \<Rightarrow> numericStats s nm)"

definition categorical_of :: "jserror + summary_stats \<Rightarrow> string \<Rightarrow> categorical_stats option" where
  "categorical_of r nm = (case r of Inl _ \<Rightarrow> None | Inr s \<Rightarrow> categoricalStats s nm)"

definition date_of :: "jserror + summary_stats \<Rightarrow> string \<Rightarrow> date_entry option" where
  "date_of r nm = (case r of Inl _ \<Rightarrow> None | Inr s \<Rightarrow> dateStats s nm)"

section \<open>Concrete inputs\<close>

text \<open>An engine for the examples: it reads the two dates that occur in them.\<close>

definition sample_engine :: engine where
  "sample_engine =
     \<lparr> dateParse = map_of [(''2020-01-01'', 1577836800000), (''2020-01-03'', 1578009600000)],
       numberToString = (\<lambda>q. if q = 1 then ''1'' else if q = 2 then ''2'' else ''0'') \<rparr>"

definition scenario_data :: "row list" where
  "scenario_data =
     [[(''rev'', VStr ''100''), (''yr'', VStr ''2020'')],
      [(''rev'', VStr ''200''), (''yr'', VStr ''2021'')]]"

definition scenario_columns :: "column list" where
  "scenario_columns = [\<lparr> name = ''rev'', ctype = TNumber \<rparr>, \<lparr> name = ''yr'', ctype = TNumber \<rparr>]"


definition mixed_data :: "row list" where
  "mixed_data =
     [[(''n'', VStr ''1''), (''d'', VStr ''2020-01-01''), (''e'', VStr '''')],
      [(''n'', VStr ''abc''), (''d'', VStr ''2020-01-03''), (''e'', VNull)],
      [(''n'', VStr ''''), (''d'', VStr ''soon'')]]"

definition mixed_columns :: "column list" where
  "mixed_columns =
     [\<lparr> name = ''n'', ctype = TNumber \<rparr>, \<lparr> name = ''d'', ctype = TDate \<rparr>,
      \<lparr> name = ''e'', ctype = TDate \<rparr>]"


definition overflow_data :: "row list" where
  "overflow_data = [[(''rev'', VStr ''1e308'')], [(''rev'', VStr ''1e308'')]]"

definition detected_data :: "row list" where
  "detected_data =
     [[(''n'', VStr ''1''), (''d'', VStr ''2020-01-01'')],
      [(''n'', VStr ''abc''), (''d'', VStr ''2020-01-03'')],
      [(''n'', VStr ''2''), (''d'', VStr ''soon'')],
      [(''n'', VStr ''''), (''d'', VStr '''')]]"

definition detected_columns :: "column list" where
  "detected_columns = [\<lparr> name = ''n'', ctype = TNumber \<rparr>, \<lparr> name = ''d'', ctype = TDate \<rparr>]"

definition empty_date_data :: "row list" where
  "empty_date_data = [[(''d'', VStr '''')]]"

definition boolean_data :: "row list" where
  "boolean_data = [[(''b'', VStr ''true'')], [(''b'', VStr ''false'')]]"

definition proto_data :: "row list" where
  "proto_data = [[(''c'', VStr ''__proto__'')]]"

definition half_numbers_data :: "row list" where
  "half_numbers_data = [[(''c'', VStr ''1'')], [(''c'', VStr ''abc'')]]"

definition two_thirds_data :: "row list" where
  "two_thirds_data =
     [[(''c'', VStr ''1'')], [(''c'', VStr ''2'')], [(''c'', VStr ''2020-01-01'')],
      [(''c'', VStr ''abc'')], [(''c'', VStr '''')]]"

definition sample_upload_env :: upload_env where
  "sample_upload_env =
     \<lparr> ue_engine = sample_engine,
       read_csv = (\<lambda>p. if p = ''uploads/ok.csv'' then Rows scenario_data
                       else if p = ''uploads/blank.csv'' then Rows [[('''', VStr ''x'')]]
                       else if p = ''uploads/locked.csv'' then Unreadable ''EACCES''
                       else Missing),
       read_sheet = (\<lambda>p. Missing),
       db_accepts = (\<lambda>r. True) \<rparr>"

definition upload_of :: "string \<Rightarrow> string \<Rightarrow> upload_request" where
  "upload_of original p =
     \<lparr> req_file = Some \<lparr> originalname = original, filename = ''f1'', path = p, f_size = 10 \<rparr>,
       req_user = ''u1'' \<rparr>"

definition sample_ai :: "string option \<Rightarrow> string option \<Rightarrow> string option \<Rightarrow> string option \<Rightarrow> provider list \<Rightarrow> ai_env" where
  \<comment> \<open>an environment with the given \<open>AI_PROVIDER\<close> and keys in which exactly the
     listed providers answer\<close>
  "sample_ai pref hf gm oa up =
     \<lparr> AI_PROVIDER = pref, HUGGINGFACE_API_KEY = hf, GEMINI_API_KEY = gm, OPENAI_API_KEY = oa,
       call = (\<lambda>p. if p \<in> set up then Inr ''answer'' else Inl ''unavailable'') \<rparr>"

definition sample_table :: file_data where
  "sample_table =
     \<lparr> userId = ''u1'', fileName = ''f1'', originalName = ''ok.csv'', fileType = ''csv'',
       fileSize = 10, fd_data = scenario_data, fd_columns = scenario_columns, fd_rowCount = 2,
       isProcessed = True \<rparr>"

definition sample_chat_env :: chat_env where
  "sample_chat_env =
     \<lparr> ce_engine = sample_engine,
       ce_ai = sample_ai None (Some ''hf-key'') None None [HuggingFace],
       findOne = (\<lambda>i u. if i = VStr ''t1'' \<and> u = ''u1'' then Inr (Some sample_table) else Inr None),
       chat_prompt = (\<lambda>st fd q. ''User Question: '' @ q) \<rparr>"

section \<open>Properties of the Statistics Engine\<close>

text \<open>
  Claim C8. For a table without rows, whatever the column descriptor list is,
  \<open>generateSummaryStats\<close> returns at once, without raising: the row count is 0, the
  column list is empty, and the three per-type mappings \<open>numericStats\<close>,
  \<open>categoricalStats\<close> and \<open>dateStats\<close> are empty. (The column count is still the
  length of the descriptor list.)
\<close>

theorem generateSummaryStats_empty_table:
  "generateSummaryStats eng [] cols =
     Inr \<lparr> rowCount = 0, columnCount = length cols, columns = [],
           numericStats = Map.empty, categoricalStats = Map.empty, dateStats = Map.empty \<rparr>"
  by (simp add: generateSummaryStats_def)

lemmas parse_defs =
  parseFloat_str_def parse_signed_def parse_unsigned_def parse_exponent_def pow10_def
  Number_str_def parse_radix_def radix_digit_def trimStart_def trim_def is_ws_def
  is_digit_def digits_val_def digit_val_def starts_with_def lower_char_def toLowerCase_def
  js_fin_def overflow_threshold_def

lemmas stats_defs =
  generateSummaryStats_def process_column_def column_values_def numeric_values_def
  date_timestamps_def numeric_entry_def median_of_def categorical_entry_def date_entry_of_def
  js_sort_def num_gt_def js_sub_def int_gt_def count_gt_def entries_def is_array_index_def
  count_value_def proto_members_def round_div_def row_get_def is_empty_val_def List.map_filter_def
  numeric_of_def categorical_of_def date_of_def sample_engine_def

lemmas detect_defs =
  detectColumnType_def classify_def exceeds_07_def match_shape_def datePatterns_def

lemma process_column_numeric:
  "process_column eng data col st0 = Inr st \<Longrightarrow>
   numericStats st nm =
     (if name col = nm \<and> ctype col = TNumber \<and> numeric_values (column_values data nm) \<noteq> []
      then Some (numeric_entry (length data) (numeric_values (column_values data nm)))
      else numericStats st0 nm)"
  by (auto simp: process_column_def Let_def numeric_values_def split: if_splits coltype.splits)

lemma process_columns_numeric:
  "process_columns eng data cs st0 = Inr st \<Longrightarrow>
   numericStats st nm =
     (if (\<exists>c \<in> set cs. name c = nm \<and> ctype c = TNumber) \<and> numeric_values (column_values data nm) \<noteq> []
      then Some (numeric_entry (length data) (numeric_values (column_values data nm)))
      else numericStats st0 nm)"
proof (induction cs arbitrary: st0)
  case Nil
  then show ?case by simp
next
  case (Cons c cs)
  from Cons.prems obtain st1 where
    s1: "process_column eng data c st0 = Inr st1" and s2: "process_columns eng data cs st1 = Inr st"
    by (auto split: sum.splits)
  show ?case
    using Cons.IH [OF s2] process_column_numeric [OF s1, of nm] by auto
qed

lemma generateSummaryStats_numeric:
  assumes "generateSummaryStats eng data cols = Inr stats"
  shows "numericStats stats nm =
     (if data \<noteq> [] \<and> (\<exists>c \<in> set cols. name c = nm \<and> ctype c = TNumber) \<and>
         numeric_values (column_values data nm) \<noteq> []
      then Some (numeric_entry (length data) (numeric_values (column_values data nm)))
      else None)"
proof (cases "data = []")
  case True
  with assms show ?thesis by (auto simp: generateSummaryStats_def)
next
  case False
  with assms show ?thesis
    by (simp add: generateSummaryStats_def process_columns_numeric [where nm = nm])
qed









lemma abs_sum_list_le: "\<bar>sum_list qs\<bar> \<le> sum_list (map abs qs)" for qs :: "rat list"
  by (induction qs) auto














text \<open>
  Finite values whose sum overflows: for two cells \<open>1e308\<close> the sum, the mean and the
  median are \<open>Infinity\<close>, above the maximum.
\<close>

lemma numeric_stats_overflow:
  "numeric_of (generateSummaryStats sample_engine overflow_data [\<lparr> name = ''rev'', ctype = TNumber \<rparr>]) ''rev'' =
     Some \<lparr> ns_count = 2, ns_nullCount = 0, ns_min = Fin (10 ^ 308), ns_max = Fin (10 ^ 308),
            ns_sum = PInf, ns_mean = PInf, ns_median = PInf \<rparr>"
  by (simp add: overflow_data_def stats_defs parse_defs)

lemma process_column_rowCount:
  "process_column eng data col st0 = Inr st \<Longrightarrow> rowCount st = rowCount st0"
  by (auto simp: process_column_def Let_def split: if_splits coltype.splits)

lemma process_columns_rowCount:
  "process_columns eng data cs st0 = Inr st \<Longrightarrow> rowCount st = rowCount st0"
  by (induction cs arbitrary: st0) (auto split: sum.splits dest: process_column_rowCount)

lemma generateSummaryStats_rowCount:
  "generateSummaryStats eng data cols = Inr stats \<Longrightarrow> rowCount stats = length data"
  by (auto simp: generateSummaryStats_def split: if_splits dest: process_columns_rowCount)

lemma process_column_categorical:
  "process_column eng data col st0 = Inr st \<Longrightarrow>
   categoricalStats st nm =
     (if name col = nm \<and> ctype col = TString
      then Some (categorical_entry eng (length data) (column_values data nm))
      else categoricalStats st0 nm)"
  by (auto simp: process_column_def Let_def split: if_splits coltype.splits)

lemma process_column_date:
  "process_column eng data col st0 = Inr st \<Longrightarrow>
   dateStats st nm =
     (if name col = nm \<and> ctype col = TDate \<and> column_values data nm = []
      then Some (NullCountOnly (int (length data)))
      else if name col = nm \<and> ctype col = TDate \<and> date_timestamps eng (column_values data nm) \<noteq> []
      then Some (DateStats (date_entry_of (length data) (date_timestamps eng (column_values data nm))))
      else dateStats st0 nm)"
  by (auto simp: process_column_def Let_def date_timestamps_def split: if_splits coltype.splits)

lemma process_column_values:
  "process_column eng data col st0 = Inr st \<Longrightarrow> ctype col \<noteq> TDate \<Longrightarrow>
   column_values data (name col) \<noteq> []"
  by (auto simp: process_column_def Let_def split: if_splits coltype.splits)

lemma process_columns_categorical:
  "process_columns eng data cs st0 = Inr st \<Longrightarrow>
   categoricalStats st nm =
     (if (\<exists>c \<in> set cs. name c = nm \<and> ctype c = TString)
      then Some (categorical_entry eng (length data) (column_values data nm))
      else categoricalStats st0 nm)"
proof (induction cs arbitrary: st0)
  case Nil
  then show ?case by simp
next
  case (Cons c cs)
  from Cons.prems obtain st1 where
    s1: "process_column eng data c st0 = Inr st1" and s2: "process_columns eng data cs st1 = Inr st"
    by (auto split: sum.splits)
  show ?case
    using Cons.IH [OF s2] process_column_categorical [OF s1, of nm] by auto
qed

lemma process_columns_date:
  "process_columns eng data cs st0 = Inr st \<Longrightarrow>
   dateStats st nm =
     (if (\<exists>c \<in> set cs. name c = nm \<and> ctype c = TDate) \<and> column_values data nm = []
      then Some (NullCountOnly (int (length data)))
      else if (\<exists>c \<in> set cs. name c = nm \<and> ctype c = TDate) \<and>
              date_timestamps eng (column_values data nm) \<noteq> []
      then Some (DateStats (date_entry_of (length data) (date_timestamps eng (column_values data nm))))
      else dateStats st0 nm)"
proof (induction cs arbitrary: st0)
  case Nil
  then show ?case by simp
next
  case (Cons c cs)
  from Cons.prems obtain st1 where
    s1: "process_column eng data c st0 = Inr st1" and s2: "process_columns eng data cs st1 = Inr st"
    by (auto split: sum.splits)
  show ?case
    using Cons.IH [OF s2] process_column_date [OF s1, of nm] by auto
qed

lemma process_columns_values:
  "process_columns eng data cs st0 = Inr st \<Longrightarrow> c \<in> set cs \<Longrightarrow> ctype c \<noteq> TDate \<Longrightarrow>
   column_values data (name c) \<noteq> []"
proof (induction cs arbitrary: st0)
  case Nil
  then show ?case by simp
next
  case (Cons a cs)
  from Cons.prems obtain st1 where
    s1: "process_column eng data a st0 = Inr st1" and s2: "process_columns eng data cs st1 = Inr st"
    by (auto split: sum.splits)
  show ?case
    using Cons.IH [OF s2] process_column_values [OF s1] Cons.prems(2,3) by auto
qed

lemma generateSummaryStats_categorical:
  assumes "generateSummaryStats eng data cols = Inr stats"
  shows "categoricalStats stats nm =
     (if data \<noteq> [] \<and> (\<exists>c \<in> set cols. name c = nm \<and> ctype c = TString)
      then Some (categorical_entry eng (length data) (column_values data nm))
      else None)"
proof (cases "data = []")
  case True
  with assms show ?thesis by (auto simp: generateSummaryStats_def)
next
  case False
  with assms show ?thesis
    by (simp add: generateSummaryStats_def process_columns_categorical [where nm = nm])
qed

lemma generateSummaryStats_date:
  assumes "generateSummaryStats eng data cols = Inr stats"
  shows "dateStats stats nm =
     (if data \<noteq> [] \<and> (\<exists>c \<in> set cols. name c = nm \<and> ctype c = TDate) \<and> column_values data nm = []
      then Some (NullCountOnly (int (length data)))
      else if data \<noteq> [] \<and> (\<exists>c \<in> set cols. name c = nm \<and> ctype c = TDate) \<and>
              date_timestamps eng (column_values data nm) \<noteq> []
      then Some (DateStats (date_entry_of (length data) (date_timestamps eng (column_values data nm))))
      else None)"
proof (cases "data = []")
  case True
  with assms show ?thesis by (auto simp: generateSummaryStats_def)
next
  case False
  with assms obtain st0 where pc: "process_columns eng data cols st0 = Inr stats"
    and e: "dateStats st0 = Map.empty"
    by (auto simp: generateSummaryStats_def)
  show ?thesis
    unfolding process_columns_date [OF pc, of nm] using False e by auto
qed

lemma generateSummaryStats_values:
  assumes "generateSummaryStats eng data cols = Inr stats" and "data \<noteq> []"
    and "c \<in> set cols" and "ctype c \<noteq> TDate"
  shows "column_values data (name c) \<noteq> []"
  using assms by (auto simp: generateSummaryStats_def dest: process_columns_values)

text \<open>
  For every column list: an entry of \<open>numericStats\<close>, and an entry of
  \<open>dateStats\<close> that carries a count, has \<open>count + nullCount = rowCount\<close>; the
  entry that a date column without any value leaves in \<open>dateStats\<close> consists of
  \<open>nullCount = rowCount\<close> only.
\<close>

lemma entry_counts_add_up:
  assumes "generateSummaryStats eng data cols = Inr stats"
  shows "(\<forall>e. numericStats stats nm = Some e \<longrightarrow>
            int (ns_count e) + ns_nullCount e = int (rowCount stats)) \<and>
         (\<forall>d. dateStats stats nm = Some (DateStats d) \<longrightarrow>
            int (ds_count d) + ds_nullCount d = int (rowCount stats)) \<and>
         (\<forall>n. dateStats stats nm = Some (NullCountOnly n) \<longrightarrow> n = int (rowCount stats))"
proof -
  have rc: "rowCount stats = length data"
    using assms by (rule generateSummaryStats_rowCount)
  have "int (ns_count e) + ns_nullCount e = int (rowCount stats)"
    if "numericStats stats nm = Some e" for e
    using that generateSummaryStats_numeric [OF assms, of nm] rc
    by (auto simp: numeric_entry_def Let_def split: if_splits)
  moreover have "int (ds_count d) + ds_nullCount d = int (rowCount stats)"
    if "dateStats stats nm = Some (DateStats d)" for d
    using that generateSummaryStats_date [OF assms, of nm] rc
    by (auto simp: date_entry_of_def Let_def split: if_splits)
  moreover have "n = int (rowCount stats)"
    if "dateStats stats nm = Some (NullCountOnly n)" for n
    using that generateSummaryStats_date [OF assms, of nm] rc
    by (auto split: if_splits)
  ultimately show ?thesis by blast
qed

lemma same_name_same_column:
  assumes "distinct (map name cols)" and "col \<in> set cols" and "c \<in> set cols"
    and "name c = name col"
  shows "c = col"
  using assms by (meson distinct_map inj_onD)

text \<open>
  Claim C2, as amended. On a table with at least one row for which
  \<open>generateSummaryStats\<close> returns, a column of a descriptor list with distinct names
  is recorded in at most one of the three mappings, and only in the one of its type:
  in \<open>numericStats\<close> exactly when it is number-typed and some value is coerced, in
  \<open>categoricalStats\<close> exactly when it is string-typed, in \<open>dateStats\<close> exactly when
  it is date-typed and has either no value at all or some valid date. A column without
  any value is date-typed and recorded with \<open>nullCount = rowCount\<close> only. A
  boolean-typed column, and a number or date column none of whose values is coerced, is
  recorded nowhere.
\<close>

theorem column_recorded_by_type:
  assumes "generateSummaryStats eng data cols = Inr stats" and "data \<noteq> []"
    and "distinct (map name cols)" and "col \<in> set cols"
  shows "(numericStats stats (name col) \<noteq> None) =
           (ctype col = TNumber \<and> numeric_values (column_values data (name col)) \<noteq> []) \<and>
         (categoricalStats stats (name col) \<noteq> None) = (ctype col = TString) \<and>
         (dateStats stats (name col) \<noteq> None) =
           (ctype col = TDate \<and>
            (column_values data (name col) = [] \<or>
             date_timestamps eng (column_values data (name col)) \<noteq> [])) \<and>
         (column_values data (name col) = [] \<longrightarrow>
            ctype col = TDate \<and>
            dateStats stats (name col) = Some (NullCountOnly (int (rowCount stats))))"
proof -
  have u: "(\<exists>c \<in> set cols. name c = name col \<and> ctype c = t) = (ctype col = t)" for t
    using same_name_same_column [OF assms(3,4)] assms(4) by blast
  have rc: "rowCount stats = length data"
    using assms(1) by (rule generateSummaryStats_rowCount)
  have v: "ctype col \<noteq> TDate \<Longrightarrow> column_values data (name col) \<noteq> []"
    using generateSummaryStats_values [OF assms(1,2,4)] .
  have n: "(numericStats stats (name col) \<noteq> None) =
           (ctype col = TNumber \<and> numeric_values (column_values data (name col)) \<noteq> [])"
    unfolding generateSummaryStats_numeric [OF assms(1), of "name col"] u using assms(2) by simp
  have c: "(categoricalStats stats (name col) \<noteq> None) = (ctype col = TString)"
    unfolding generateSummaryStats_categorical [OF assms(1), of "name col"] u using assms(2) by simp
  have d: "(dateStats stats (name col) \<noteq> None) =
           (ctype col = TDate \<and>
            (column_values data (name col) = [] \<or>
             date_timestamps eng (column_values data (name col)) \<noteq> []))"
    unfolding generateSummaryStats_date [OF assms(1), of "name col"] u using assms(2) by auto
  have e: "column_values data (name col) = [] \<longrightarrow>
            ctype col = TDate \<and>
            dateStats stats (name col) = Some (NullCountOnly (int (rowCount stats)))"
    unfolding generateSummaryStats_date [OF assms(1), of "name col"] u rc using assms(2) v by auto
  from n c d e show ?thesis by blast
qed

text \<open>
  The date column \<open>e\<close> of the three-row table has no value.
\<close>

theorem column_recorded_by_type_witness:
  "(numericStats (projr (generateSummaryStats sample_engine mixed_data mixed_columns)) ''e'' = None) \<and>
   (categoricalStats (projr (generateSummaryStats sample_engine mixed_data mixed_columns)) ''e'' = None) \<and>
   dateStats (projr (generateSummaryStats sample_engine mixed_data mixed_columns)) ''e'' =
     Some (NullCountOnly 3)"
  using column_recorded_by_type
    [of sample_engine mixed_data mixed_columns
        "projr (generateSummaryStats sample_engine mixed_data mixed_columns)"
        "\<lparr> name = ''e'', ctype = TDate \<rparr>"]
  by (simp add: mixed_data_def mixed_columns_def stats_defs parse_defs)

text \<open>
  Claim C2 as stated fails for a boolean-typed column: the cells \<open>true\<close> and
  \<open>false\<close> make a boolean column, \<open>generateSummaryStats\<close> returns, and the
  column is in none of the three mappings.
\<close>

theorem boolean_column_counterexample:
  "detectColumnType sample_engine boolean_data ''b'' = Inr TBoolean \<and>
   \<not> isl (generateSummaryStats sample_engine boolean_data [\<lparr> name = ''b'', ctype = TBoolean \<rparr>]) \<and>
   numeric_of (generateSummaryStats sample_engine boolean_data [\<lparr> name = ''b'', ctype = TBoolean \<rparr>]) ''b'' = None \<and>
   categorical_of (generateSummaryStats sample_engine boolean_data [\<lparr> name = ''b'', ctype = TBoolean \<rparr>]) ''b'' = None \<and>
   date_of (generateSummaryStats sample_engine boolean_data [\<lparr> name = ''b'', ctype = TBoolean \<rparr>]) ''b'' = None"
  by (simp add: boolean_data_def stats_defs parse_defs detect_defs)

text \<open>
  A column without any value that is not date-typed makes \<open>generateSummaryStats\<close>
  raise: the mapping \<open>stats[`${type}Stats`]\<close> exists for the type \<open>date\<close> only.
\<close>

lemma empty_string_column_raises:
  "generateSummaryStats eng [[(''c'', VStr '''')]] [\<lparr> name = ''c'', ctype = TString \<rparr>] = Inl TypeError"
  by (simp add: stats_defs)

lemma empty_column_raises:
  assumes "data \<noteq> []" and "column_values data (name col) = []" and "ctype col \<noteq> TDate"
  shows "generateSummaryStats eng data (col # cols) = Inl TypeError"
  using assms by (cases "ctype col") (simp_all add: generateSummaryStats_def process_column_def)

text \<open>
  Claim C10 at the failing input. A string column whose only cell is the text
  \<open>__proto__\<close> has one non-empty value, but the assignment to
  \<open>valueCounts['__proto__']\<close> creates no property: \<open>topValues\<close> is empty and
  \<open>mostFrequent\<close> is \<open>null\<close>, so there is no first top value to agree with.
\<close>

theorem mostFrequent_proto_key:
  "detectColumnType sample_engine proto_data ''c'' = Inr TString \<and>
   categorical_of (generateSummaryStats sample_engine proto_data [\<lparr> name = ''c'', ctype = TString \<rparr>]) ''c'' =
     Some \<lparr> uniqueValues = 0, totalCount = 1, cs_nullCount = 0, topValues = [], mostFrequent = None \<rparr>"
  by (simp add: proto_data_def stats_defs parse_defs detect_defs)


lemma length_insert_by: "length (insert_by gt x ys) = Suc (length ys)"
  by (induction ys) auto

lemma length_js_sort: "length (js_sort gt xs) = length xs"
  by (induction xs) (auto simp: js_sort_def length_insert_by)

lemma length_entries: "length (entries kvs) = length kvs"
  by (induction kvs) (auto simp: entries_def)

lemma count_value_nonempty: "vc \<noteq> [] \<or> key \<noteq> ''__proto__'' \<Longrightarrow> count_value vc key \<noteq> []"
  by (auto simp: count_value_def split: option.splits)

lemma foldl_count_value_keeps: "vc \<noteq> [] \<Longrightarrow> foldl count_value vc ks \<noteq> []"
  by (induction ks arbitrary: vc) (auto simp: count_value_nonempty)

lemma foldl_count_value_nonempty:
  "\<exists>k \<in> set ks. k \<noteq> ''__proto__'' \<Longrightarrow> foldl count_value vc ks \<noteq> []"
proof (induction ks arbitrary: vc)
  case Nil
  then show ?case by simp
next
  case (Cons k ks)
  show ?case
  proof (cases "k = ''__proto__''")
    case True
    with Cons.prems have "\<exists>k \<in> set ks. k \<noteq> ''__proto__''" by auto
    then show ?thesis using Cons.IH by simp
  next
    case False
    then have "count_value vc k \<noteq> []" by (simp add: count_value_nonempty)
    then show ?thesis by (simp add: foldl_count_value_keeps)
  qed
qed

text \<open>
  For every other column of texts the most frequent value is the value of the first
  entry of \<open>topValues\<close>.
\<close>

lemma mostFrequent_is_first_top_value:
  assumes "\<exists>v \<in> set values. trim (toString eng v) \<noteq> ''__proto__''"
  shows "topValues (categorical_entry eng n values) \<noteq> [] \<and>
         mostFrequent (categorical_entry eng n values) =
           Some (tv_value (hd (topValues (categorical_entry eng n values))))"
proof -
  let ?vc = "foldl (\<lambda>vc val. count_value vc (trim (toString eng val))) [] values"
  have "?vc = foldl count_value [] (map (\<lambda>val. trim (toString eng val)) values)"
    by (simp add: foldl_map)
  moreover have "\<exists>k \<in> set (map (\<lambda>val. trim (toString eng val)) values). k \<noteq> ''__proto__''"
    using assms by auto
  ultimately have "?vc \<noteq> []"
    using foldl_count_value_nonempty by metis
  then have "js_sort count_gt (entries ?vc) \<noteq> []"
    by (metis length_js_sort length_entries length_0_conv)
  then obtain e es where "js_sort count_gt (entries ?vc) = e # es"
    by (cases "js_sort count_gt (entries ?vc)") auto
  then show ?thesis
    by (simp add: categorical_entry_def Let_def split: prod.splits)
qed


section \<open>Properties of the Type Detector\<close>

lemma class_count_Cons:
  "class_count eng c (v # vs) = (if classify eng v = Inr c then 1 else 0) + class_count eng c vs"
  by (simp add: class_count_def)

lemma count_sample_counts:
  "count_sample eng col rows (n0, d0, b0) = Inr (n, d, b) \<Longrightarrow>
   n = n0 + class_count eng CNumber (filter (\<lambda>v. \<not> is_empty_val v) (map (\<lambda>r. row_get r col) rows)) \<and>
   d = d0 + class_count eng CDate (filter (\<lambda>v. \<not> is_empty_val v) (map (\<lambda>r. row_get r col) rows)) \<and>
   b = b0 + class_count eng CBoolean (filter (\<lambda>v. \<not> is_empty_val v) (map (\<lambda>r. row_get r col) rows))"
proof (induction rows arbitrary: n0 d0 b0)
  case Nil
  then show ?case by (simp add: class_count_def)
next
  case (Cons r rows)
  show ?case
  proof (cases "is_empty_val (row_get r col)")
    case True
    with Cons.prems have "count_sample eng col rows (n0, d0, b0) = Inr (n, d, b)" by simp
    from Cons.IH [OF this] True show ?thesis by simp
  next
    case False
    with Cons.prems obtain k where k: "classify eng (row_get r col) = Inr k"
      by (auto simp: Let_def split: sum.splits)
    show ?thesis
    proof (cases k)
      case CNumber
      with Cons.prems False k have "count_sample eng col rows (n0 + 1, d0, b0) = Inr (n, d, b)"
        by (simp add: Let_def)
      from Cons.IH [OF this] False k CNumber show ?thesis by (simp add: class_count_Cons)
    next
      case CDate
      with Cons.prems False k have "count_sample eng col rows (n0, d0 + 1, b0) = Inr (n, d, b)"
        by (simp add: Let_def)
      from Cons.IH [OF this] False k CDate show ?thesis by (simp add: class_count_Cons)
    next
      case CBoolean
      with Cons.prems False k have "count_sample eng col rows (n0, d0, b0 + 1) = Inr (n, d, b)"
        by (simp add: Let_def)
      from Cons.IH [OF this] False k CBoolean show ?thesis by (simp add: class_count_Cons)
    next
      case CNone
      with Cons.prems False k have "count_sample eng col rows (n0, d0, b0) = Inr (n, d, b)"
        by (simp add: Let_def)
      from Cons.IH [OF this] False k CNone show ?thesis by (simp add: class_count_Cons)
    qed
  qed
qed

lemma exceeds_07_iff: "exceeds_07 c (int t) = (7 * t < 10 * c)"
proof (cases "t = 0")
  case True
  then show ?thesis by (simp add: exceeds_07_def)
next
  case False
  have "((7::rat) / 10 < of_nat c / of_nat t) = ((7::rat) * of_nat t < 10 * of_nat c)"
    using False by (simp add: field_simps)
  also have "\<dots> = (7 * t < 10 * c)"
    by (metis of_nat_less_iff of_nat_mult of_nat_numeral)
  finally show ?thesis using False by (simp add: exceeds_07_def)
qed

lemma detectColumnType_string_iff:
  assumes "detectColumnType eng data columnName = Inr t"
    and "n = class_count eng CNumber (sample_values data columnName)"
    and "d = class_count eng CDate (sample_values data columnName)"
    and "b = class_count eng CBoolean (sample_values data columnName)"
  shows "(t = TString) = (10 * n \<le> 7 * (n + d + b) \<and> 10 * d \<le> 7 * (n + d + b) \<and> 10 * b \<le> 7 * (n + d + b))"
proof (cases "data = []")
  case True
  with assms show ?thesis
    by (simp add: detectColumnType_def sample_values_def class_count_def)
next
  case False
  with assms(1) obtain n' d' b' where
    cs: "count_sample eng columnName (take (min 10 (length data)) data) (0, 0, 0) = Inr (n', d', b')"
    by (auto simp: detectColumnType_def Let_def split: sum.splits)
  have tk: "take (min 10 (length data)) data = take 10 data" by (simp add: min_def)
  from count_sample_counts [OF cs] have eq: "n' = n" "d' = d" "b' = b"
    unfolding tk using assms(2-4) by (simp_all add: sample_values_def)
  define tot where "tot = n + d + b"
  have tv: "int (min 10 (length data)) - (int (min 10 (length data)) - int n - int d - int b) = int tot"
    by (simp add: tot_def)
  have tv2: "int n + (int d + int b) = int tot"
    by (simp add: tot_def)
  have res: "t = (if 7 * tot < 10 * n then TNumber
                  else if 7 * tot < 10 * d then TDate
                  else if 7 * tot < 10 * b then TBoolean else TString)"
    using assms(1) False
    by (simp add: detectColumnType_def Let_def cs eq tv tv2 exceeds_07_iff split: if_splits)
  show ?thesis
    unfolding res tot_def [symmetric] by (simp split: if_splits)
qed

text \<open>
  Claim C1, as amended. The sample is the first \<open>min(10, rowCount)\<close> values of the
  column, without the empty ones. The denominator of the majority test is the number of
  sample values that were classified as number, date or boolean; the values that are
  classified as none of them are not counted. When \<open>detectColumnType\<close> returns, it
  returns \<open>string\<close> exactly when none of the three counts exceeds 70% of that
  number.
\<close>

theorem detectColumnType_majority_of_classified:
  assumes "detectColumnType eng data columnName = Inr t"
  shows "(t = TString) =
           (let n = class_count eng CNumber (sample_values data columnName);
                d = class_count eng CDate (sample_values data columnName);
                b = class_count eng CBoolean (sample_values data columnName)
            in 10 * n \<le> 7 * (n + d + b) \<and> 10 * d \<le> 7 * (n + d + b) \<and>
               10 * b \<le> 7 * (n + d + b))"
  unfolding Let_def by (rule detectColumnType_string_iff [OF assms refl refl refl])


lemma two_thirds_eval:
  "detectColumnType sample_engine two_thirds_data ''c'' = Inr TString"
  by (simp add: two_thirds_data_def detect_defs parse_defs row_get_def is_empty_val_def sample_engine_def)

lemma two_thirds_counts:
  "class_count sample_engine CNumber (sample_values two_thirds_data ''c'') = 2"
  "class_count sample_engine CDate (sample_values two_thirds_data ''c'') = 1"
  "class_count sample_engine CBoolean (sample_values two_thirds_data ''c'') = 0"
  by (simp_all add: two_thirds_data_def detect_defs parse_defs sample_values_def class_count_def
      row_get_def is_empty_val_def sample_engine_def)

text \<open>
  Two numbers, one date and one other text: the numbers are two thirds of the three
  classified values, and the column is a string column.
\<close>

theorem detectColumnType_majority_of_classified_witness:
  "detectColumnType sample_engine two_thirds_data ''c'' = Inr TString \<and>
   class_count sample_engine CNumber (sample_values two_thirds_data ''c'') = 2 \<and>
   class_count sample_engine CDate (sample_values two_thirds_data ''c'') = 1 \<and>
   class_count sample_engine CBoolean (sample_values two_thirds_data ''c'') = 0 \<and>
   (10 * (2::nat) \<le> 7 * (2 + 1 + 0))"
  using detectColumnType_majority_of_classified [OF two_thirds_eval]
  by (simp add: two_thirds_eval two_thirds_counts)

text \<open>
  Claim C1 as stated fails: with the cells \<open>1\<close> and \<open>abc\<close> the numbers are one
  half of the non-empty sample values, no category has more than 70% of them, and the
  column is detected as \<open>number\<close>, because the text \<open>abc\<close> is not in the
  denominator.
\<close>

theorem detectColumnType_half_numbers_counterexample:
  "detectColumnType sample_engine half_numbers_data ''c'' = Inr TNumber \<and>
   sample_values half_numbers_data ''c'' = [VStr ''1'', VStr ''abc''] \<and>
   class_count sample_engine CNumber [VStr ''1'', VStr ''abc''] = 1 \<and>
   class_count sample_engine CDate [VStr ''1'', VStr ''abc''] = 0 \<and>
   class_count sample_engine CBoolean [VStr ''1'', VStr ''abc''] = 0 \<and>
   10 * class_count sample_engine CNumber [VStr ''1'', VStr ''abc''] \<le>
     7 * length [VStr ''1'', VStr ''abc'']"
  by (simp add: half_numbers_data_def detect_defs parse_defs sample_values_def class_count_def
      row_get_def is_empty_val_def sample_engine_def)



section \<open>Tables built by the file processor\<close>

lemma count_sample_no_values:
  "\<forall>r \<in> set rows. is_empty_val (row_get r col) \<Longrightarrow> count_sample eng col rows acc = Inr acc"
proof (induction rows)
  case Nil
  then show ?case by simp
next
  case (Cons r rows)
  obtain n d b where acc: "acc = (n, d, b)" by (cases acc) auto
  from Cons show ?case unfolding acc by simp
qed

lemma detectColumnType_no_values:
  assumes "column_values data nm = []"
  shows "detectColumnType eng data nm = Inr TString"
proof (cases "data = []")
  case True
  then show ?thesis by (simp add: detectColumnType_def)
next
  case False
  have "\<forall>r \<in> set data. is_empty_val (row_get r nm)"
    using assms by (auto simp: column_values_def filter_empty_conv)
  then have "\<forall>r \<in> set (take (min 10 (length data)) data). is_empty_val (row_get r nm)"
    by (meson in_set_takeD)
  then have "count_sample eng nm (take (min 10 (length data)) data) (0, 0, 0) = Inr (0, 0, 0)"
    by (rule count_sample_no_values)
  then show ?thesis
    using False by (simp add: detectColumnType_def Let_def exceeds_07_def)
qed

text \<open>
  A column list that the detector did not produce can hold a date column without any
  value; its entry in \<open>dateStats\<close> has no count.
\<close>

lemma empty_date_column_entry:
  "date_of (generateSummaryStats sample_engine empty_date_data [\<lparr> name = ''d'', ctype = TDate \<rparr>]) ''d'' =
     Some (NullCountOnly 1)"
  by (simp add: empty_date_data_def stats_defs)

text \<open>
  Claim C9. For a table that the file processor builds, where the type of every column
  is the one that \<open>detectColumnType\<close> gives on the rows of the table, every entry
  that \<open>generateSummaryStats\<close> records in \<open>numericStats\<close> or in \<open>dateStats\<close>
  has \<open>count + nullCount = rowCount\<close>. (The detector never gives the type
  \<open>date\<close> to a column without values, so every entry of \<open>dateStats\<close> carries a
  count.)
\<close>

theorem count_plus_nullCount_is_rowCount:
  assumes "generateSummaryStats eng data cols = Inr stats"
    and "\<forall>col \<in> set cols. detectColumnType eng data (name col) = Inr (ctype col)"
  shows "(\<forall>e. numericStats stats nm = Some e \<longrightarrow>
            int (ns_count e) + ns_nullCount e = int (rowCount stats)) \<and>
         (\<forall>e. dateStats stats nm = Some e \<longrightarrow>
            (\<exists>d. e = DateStats d \<and> int (ds_count d) + ds_nullCount d = int (rowCount stats)))"
proof -
  note g = entry_counts_add_up [OF assms(1), of nm]
  have "\<exists>d. e = DateStats d \<and> int (ds_count d) + ds_nullCount d = int (rowCount stats)"
    if e: "dateStats stats nm = Some e" for e
  proof (cases e)
    case (DateStats d)
    with e g show ?thesis by simp
  next
    case (NullCountOnly n)
    with e have "dateStats stats nm = Some (NullCountOnly n)" by simp
    then obtain c where c: "c \<in> set cols" "name c = nm" "ctype c = TDate"
      and v: "column_values data nm = []"
      using generateSummaryStats_date [OF assms(1), of nm] by (auto split: if_splits)
    from assms(2) c have "detectColumnType eng data nm = Inr TDate" by auto
    with detectColumnType_no_values [OF v, of eng] show ?thesis by simp
  qed
  with g show ?thesis by blast
qed

lemma detected_returns:
  "generateSummaryStats sample_engine detected_data detected_columns =
     Inr (projr (generateSummaryStats sample_engine detected_data detected_columns))"
  by (simp add: detected_data_def detected_columns_def stats_defs parse_defs)

lemma detected_types:
  "\<forall>col \<in> set detected_columns.
     detectColumnType sample_engine detected_data (name col) = Inr (ctype col)"
  by (simp add: detected_data_def detected_columns_def detect_defs parse_defs row_get_def
      is_empty_val_def sample_engine_def)

lemma detected_entries:
  "numeric_of (generateSummaryStats sample_engine detected_data detected_columns) ''n'' =
     Some \<lparr> ns_count = 2, ns_nullCount = 2, ns_min = Fin 1, ns_max = Fin 2, ns_sum = Fin 3,
            ns_mean = Fin (3 / 2), ns_median = Fin (3 / 2) \<rparr>"
  "date_of (generateSummaryStats sample_engine detected_data detected_columns) ''d'' =
     Some (DateStats \<lparr> ds_count = 2, ds_nullCount = 2, earliest = 1577836800000,
                        latest = 1578009600000, span = 2 \<rparr>)"
  "rowCount (projr (generateSummaryStats sample_engine detected_data detected_columns)) = 4"
  by (simp_all add: detected_data_def detected_columns_def stats_defs parse_defs)

text \<open>
  A table of four rows as the file processor builds it: the number column \<open>n\<close> has
  two coerced values, a text that fails the coercion and an empty cell; the date column
  \<open>d\<close> has two valid dates, a text that is no date and an empty cell.
\<close>

theorem count_plus_nullCount_is_rowCount_witness:
  "numeric_of (generateSummaryStats sample_engine detected_data detected_columns) ''n'' =
     Some \<lparr> ns_count = 2, ns_nullCount = 2, ns_min = Fin 1, ns_max = Fin 2, ns_sum = Fin 3,
            ns_mean = Fin (3 / 2), ns_median = Fin (3 / 2) \<rparr> \<and>
   date_of (generateSummaryStats sample_engine detected_data detected_columns) ''d'' =
     Some (DateStats \<lparr> ds_count = 2, ds_nullCount = 2, earliest = 1577836800000,
                        latest = 1578009600000, span = 2 \<rparr>) \<and>
   rowCount (projr (generateSummaryStats sample_engine detected_data detected_columns)) = 4"
  using
    count_plus_nullCount_is_rowCount [OF detected_returns detected_types, of "''n''"]
    count_plus_nullCount_is_rowCount [OF detected_returns detected_types, of "''d''"]
  by (simp add: detected_entries)
section \<open>Properties of the file ingestion\<close>

lemmas upload_defs =
  uploadFile_def parse_upload_def processCSV_def processExcel_def getFileType_def
  on_error_def err_message_def first_seen_def type_name_def sample_upload_env_def upload_of_def
  scenario_data_def

text \<open>
  Claim C3 at two failing inputs. An upload named \<open>notes.txt\<close> is rejected with
  status 400, and an upload named \<open>gone.csv\<close> whose parsing fails is answered with
  status 500; both responses are returned from inside the inner \<open>try\<close> block, and
  in neither case is \<open>cleanupFile\<close> called on the path of the temporary file.
\<close>

theorem uploadFile_leaves_temporary_file:
  "status (uploadFile sample_upload_env (upload_of ''notes.txt'' ''uploads/notes.txt'')) = 400 \<and>
   cleaned (uploadFile sample_upload_env (upload_of ''notes.txt'' ''uploads/notes.txt'')) = [] \<and>
   status (uploadFile sample_upload_env (upload_of ''gone.csv'' ''uploads/gone.csv'')) = 500 \<and>
   cleaned (uploadFile sample_upload_env (upload_of ''gone.csv'' ''uploads/gone.csv'')) = []"
  by (simp add: upload_defs toLowerCase_def lower_char_def)

text \<open>
  The paths on which \<open>cleanupFile\<close> is called: the path of the upload once the file
  was parsed (after the save, or in the outer \<open>catch\<close> block), and none before.
\<close>

lemma uploadFile_cleaned:
  assumes "req_file req = Some f"
  shows "cleaned (uploadFile env req) =
           (case parse_upload env f of
              Some (Parsed pd) \<Rightarrow>
                if status (uploadFile env req) = 201 \<or> path f \<noteq> [] then [path f] else []
            | _ \<Rightarrow> [])"
  using assms
  by (auto simp: uploadFile_def on_error_def Let_def split: option.splits parsing.splits)

text \<open>
  When the parsing of a received file does not give a table, or the validation of the
  column list fails, no record is written to the database; and when a response is sent,
  its status is 500.
\<close>

lemma uploadFile_nothing_saved:
  assumes "req_file req = Some f"
    and "parse_upload env f = Some Died \<or> (\<exists>e. parse_upload env f = Some (Rejected e)) \<or>
         (\<exists>pd e. parse_upload env f = Some (Parsed pd) \<and> validate_columns (p_columns pd) = Some e)"
  shows "saved (uploadFile env req) = [] \<and>
         (answered (uploadFile env req) \<longrightarrow> status (uploadFile env req) = 500)"
  using assms by (auto simp: uploadFile_def on_error_def)

text \<open>
  The response is missing exactly when the parsing ends the process: for a CSV file,
  when the file exists and reading it fails.
\<close>

lemma uploadFile_answered:
  "answered (uploadFile env req) =
     (\<forall>f. req_file req = Some f \<longrightarrow> parse_upload env f \<noteq> Some Died)"
  by (auto simp: uploadFile_def on_error_def Let_def split: option.splits parsing.splits)

lemma processExcel_answers: "processExcel env p \<noteq> Died"
  by (simp add: processExcel_def split: sum.splits)

lemma ok_csv_eval:
  "status (uploadFile sample_upload_env (upload_of ''ok.csv'' ''uploads/ok.csv'')) = 201 \<and>
   cleaned (uploadFile sample_upload_env (upload_of ''ok.csv'' ''uploads/ok.csv'')) = [''uploads/ok.csv'']"
  by (simp add: upload_defs toLowerCase_def lower_char_def detect_defs parse_defs row_get_def is_empty_val_def)

lemma gone_csv_parse:
  "parse_upload sample_upload_env \<lparr> originalname = ''gone.csv'', filename = ''f1'', path = ''uploads/gone.csv'', f_size = 10 \<rparr>
     = Some (Rejected (Error ''File does not exist: uploads/gone.csv''))"
  by (simp add: upload_defs toLowerCase_def lower_char_def)

lemma blank_csv_parse:
  "parse_upload sample_upload_env \<lparr> originalname = ''blank.csv'', filename = ''f1'', path = ''uploads/blank.csv'', f_size = 10 \<rparr>
     = Some (Parsed \<lparr> p_data = [[('''', VStr ''x'')]], p_columns = [\<lparr> name = '''', ctype = TString \<rparr>], p_rowCount = 1 \<rparr>)"
  by (simp add: upload_defs toLowerCase_def lower_char_def detect_defs parse_defs row_get_def is_empty_val_def)

text \<open>
  A CSV file that does not exist fails to parse; a CSV file whose header is the empty
  text parses and fails the validation of the columns. Both uploads are answered with
  status 500 and nothing is saved.
\<close>

lemma uploadFile_failures_answered:
  "uploadFile sample_upload_env (upload_of ''gone.csv'' ''uploads/gone.csv'') =
     \<lparr> status = 500, message = ''Error processing file: File does not exist: uploads/gone.csv'',
       saved = [], cleaned = [], answered = True \<rparr> \<and>
   uploadFile sample_upload_env (upload_of ''blank.csv'' ''uploads/blank.csv'') =
     \<lparr> status = 500, message = ''Error processing file'', saved = [],
       cleaned = [''uploads/blank.csv''], answered = True \<rparr>"
  by (simp add: upload_defs toLowerCase_def lower_char_def detect_defs parse_defs row_get_def
      is_empty_val_def)

text \<open>
  Claim C7 at a failing input. An upload named \<open>locked.csv\<close> whose file exists and
  cannot be read: \<open>processCSV\<close> attaches its \<open>error\<close> listener to the parser that
  \<open>pipe\<close> returns and not to the stream of the file, so the read error is not turned
  into a rejection of the promise and ends the process. Nothing is saved, but no failure
  is returned either: no response is sent, and \<open>cleanupFile\<close> is not called.
\<close>

theorem uploadFile_unreadable_csv_no_response:
  "answered (uploadFile sample_upload_env (upload_of ''locked.csv'' ''uploads/locked.csv'')) = False \<and>
   saved (uploadFile sample_upload_env (upload_of ''locked.csv'' ''uploads/locked.csv'')) = [] \<and>
   cleaned (uploadFile sample_upload_env (upload_of ''locked.csv'' ''uploads/locked.csv'')) = []"
  by (simp add: upload_defs toLowerCase_def lower_char_def)

section \<open>Properties of the AI Provider Gateway\<close>

lemmas ai_defs =
  generateAIInsights_def fallbackOrder_def aiProvider_def providers_def provider_name_def
  has_key_def is_set_def hasAnyProvider_def toLowerCase_def lower_char_def sample_ai_def

lemma providers_name: "(providers s = Some (Call p)) = (provider_name p = s)"
  by (cases p) (auto simp: providers_def provider_name_def)

lemma provider_name_inj: "provider_name p = provider_name q \<Longrightarrow> p = q"
  by (cases p; cases q) (simp_all add: provider_name_def)

lemma providers_not_Call: "\<forall>p. providers s \<noteq> Some (Call p) \<Longrightarrow> provider_name p \<noteq> s"
  using providers_name [of s p] by blast

lemma generateAIInsights_not_Call:
  assumes "\<forall>p. providers (aiProvider env) \<noteq> Some (Call p)"
    and "providers (aiProvider env) \<noteq> Some ObjectConstructor"
  shows "generateAIInsights env prompt = fallback env fallbackOrder []"
  using assms by (auto simp: generateAIInsights_def split: option.splits provider_entry.splits)

lemma hasAnyProvider_iff: "hasAnyProvider env = (\<exists>p. has_key env p)"
proof
  assume "hasAnyProvider env"
  then consider "has_key env HuggingFace" | "has_key env Gemini" | "has_key env OpenAI"
    by (auto simp: hasAnyProvider_def has_key_def)
  then show "\<exists>p. has_key env p" by cases blast+
next
  assume "\<exists>p. has_key env p"
  then obtain p where "has_key env p" ..
  then show "hasAnyProvider env"
    by (cases p) (auto simp: hasAnyProvider_def has_key_def)
qed

text \<open>What the fallback loop does, for any list of providers and any calls made before.\<close>

lemma fallback_none:
  "\<forall>p \<in> set ps. provider_name p = aiProvider env \<or> \<not> has_key env p \<Longrightarrow>
   fallback env ps calls =
     (calls, Inl (if hasAnyProvider env then AllProvidersFailed else NoProviderConfigured))"
  by (induction ps arbitrary: calls) auto

lemma fallback_result:
  "fallback env ps calls = (cs, r) \<Longrightarrow>
   (case r of
      Inr text \<Rightarrow> (\<exists>q. cs \<noteq> [] \<and> last cs = q \<and> call env q = Inr text)
    | Inl e \<Rightarrow>
        e = (if hasAnyProvider env then AllProvidersFailed else NoProviderConfigured) \<and>
        set cs = set calls \<union> {p \<in> set ps. provider_name p \<noteq> aiProvider env \<and> has_key env p} \<and>
        (\<forall>p \<in> set ps. provider_name p \<noteq> aiProvider env \<and> has_key env p \<longrightarrow> isl (call env p)))"
proof (induction ps arbitrary: calls)
  case Nil
  then show ?case by auto
next
  case (Cons p ps)
  show ?case
  proof (cases "provider_name p = aiProvider env \<or> \<not> has_key env p")
    case True
    with Cons.prems have "fallback env ps calls = (cs, r)" by (auto split: if_splits)
    from Cons.IH [OF this] True show ?thesis by (auto split: sum.splits)
  next
    case False
    show ?thesis
    proof (cases "call env p")
      case (Inr answer)
      with False Cons.prems show ?thesis by auto
    next
      case (Inl e)
      with False Cons.prems have "fallback env ps (calls @ [p]) = (cs, r)" by auto
      from Cons.IH [OF this] False Inl show ?thesis by (auto split: sum.splits)
    qed
  qed
qed

lemma fallback_single:
  assumes "has_key env q" and "provider_name q \<noteq> aiProvider env" and "q \<in> set ps"
    and "\<forall>r \<in> set ps. r \<noteq> q \<longrightarrow> provider_name r = aiProvider env \<or> \<not> has_key env r"
    and "distinct ps"
  shows "snd (fallback env ps calls) =
           (case call env q of Inr text \<Rightarrow> Inr text | Inl e \<Rightarrow> Inl AllProvidersFailed)"
  using assms
proof (induction ps arbitrary: calls)
  case Nil
  then show ?case by simp
next
  case (Cons p ps)
  have any: "hasAnyProvider env" using Cons.prems(1) hasAnyProvider_iff by blast
  show ?case
  proof (cases "p = q")
    case True
    show ?thesis
    proof (cases "call env q")
      case (Inr answer)
      with True Cons.prems show ?thesis by simp
    next
      case (Inl e)
      have rest: "\<forall>r \<in> set ps. provider_name r = aiProvider env \<or> \<not> has_key env r"
        using Cons.prems(4,5) True by auto
      show ?thesis
        using True Inl Cons.prems(1,2) any by (simp add: fallback_none [OF rest])
    qed
  next
    case False
    with Cons.prems have skip: "provider_name p = aiProvider env \<or> \<not> has_key env p" by auto
    have "snd (fallback env ps calls) =
            (case call env q of Inr text \<Rightarrow> Inr text | Inl e \<Rightarrow> Inl AllProvidersFailed)"
      using Cons.IH [of calls] Cons.prems False by auto
    with skip show ?thesis by auto
  qed
qed

text \<open>
  The fallback of the gateway, for every value of \<open>AI_PROVIDER\<close> other than
  \<open>constructor\<close>. (1) When the preferred provider has no credential or its call
  fails, and exactly one other provider has a credential, the outcome of
  \<open>generateAIInsights\<close> is the outcome of that provider: its text when its call
  succeeds, and the error \<open>AllProvidersFailed\<close> when it fails too; the same holds
  when \<open>AI_PROVIDER\<close> names none of the three providers and exactly one has a
  credential. (2) When no provider has a credential, the error
  \<open>NoProviderConfigured\<close> is raised and no provider was called. (3) When the error
  \<open>AllProvidersFailed\<close> is raised, some provider has a credential, and every
  provider that has one was called and its call failed.
\<close>

lemma gateway_fallback_named_provider:
  assumes nc: "providers (aiProvider env) \<noteq> Some ObjectConstructor"
  shows
  "(providers (aiProvider env) = Some (Call p) \<and> (\<not> has_key env p \<or> isl (call env p)) \<and>
    has_key env q \<and> q \<noteq> p \<and> (\<forall>r. r \<noteq> p \<and> r \<noteq> q \<longrightarrow> \<not> has_key env r) \<longrightarrow>
      snd (generateAIInsights env prompt) =
        (case call env q of Inr text \<Rightarrow> Inr text | Inl e \<Rightarrow> Inl AllProvidersFailed)) \<and>
   ((\<forall>p. providers (aiProvider env) \<noteq> Some (Call p)) \<and> has_key env q \<and>
    (\<forall>r. r \<noteq> q \<longrightarrow> \<not> has_key env r) \<longrightarrow>
      snd (generateAIInsights env prompt) =
        (case call env q of Inr text \<Rightarrow> Inr text | Inl e \<Rightarrow> Inl AllProvidersFailed)) \<and>
   (\<not> hasAnyProvider env \<longrightarrow> generateAIInsights env prompt = ([], Inl NoProviderConfigured)) \<and>
   (snd (generateAIInsights env prompt) = Inl AllProvidersFailed \<longrightarrow>
      hasAnyProvider env \<and>
      (\<forall>r. has_key env r \<longrightarrow> r \<in> set (fst (generateAIInsights env prompt)) \<and> isl (call env r)))"
proof -
  have A': "snd (generateAIInsights env prompt) =
        (case call env q of Inr text \<Rightarrow> Inr text | Inl e \<Rightarrow> Inl AllProvidersFailed)"
    if a: "(\<forall>p. providers (aiProvider env) \<noteq> Some (Call p)) \<and> has_key env q \<and>
           (\<forall>r. r \<noteq> q \<longrightarrow> \<not> has_key env r)"
  proof -
    from a have none: "\<forall>p. providers (aiProvider env) \<noteq> Some (Call p)" by blast
    have qn: "provider_name q \<noteq> aiProvider env" using none by (rule providers_not_Call)
    have qin: "q \<in> set fallbackOrder" by (cases q) (simp_all add: fallbackOrder_def)
    have "snd (fallback env fallbackOrder []) =
            (case call env q of Inr text \<Rightarrow> Inr text | Inl e \<Rightarrow> Inl AllProvidersFailed)"
      using a qn qin by (intro fallback_single) (auto simp: fallbackOrder_def)
    then show ?thesis by (simp add: generateAIInsights_not_Call [OF none nc])
  qed
  have A: "snd (generateAIInsights env prompt) =
        (case call env q of Inr text \<Rightarrow> Inr text | Inl e \<Rightarrow> Inl AllProvidersFailed)"
    if a: "providers (aiProvider env) = Some (Call p) \<and> (\<not> has_key env p \<or> isl (call env p)) \<and>
      has_key env q \<and> q \<noteq> p \<and> (\<forall>r. r \<noteq> p \<and> r \<noteq> q \<longrightarrow> \<not> has_key env r)"
  proof -
    from a have pn: "provider_name p = aiProvider env" by (simp add: providers_name)
    have qn: "provider_name q \<noteq> aiProvider env"
      using a pn provider_name_inj [of q p] by auto
    have qin: "q \<in> set fallbackOrder" by (cases q) (simp_all add: fallbackOrder_def)
    have others: "\<forall>r \<in> set fallbackOrder. r \<noteq> q \<longrightarrow> provider_name r = aiProvider env \<or> \<not> has_key env r"
      using a pn by auto
    have fb: "snd (fallback env fallbackOrder calls) =
                (case call env q of Inr text \<Rightarrow> Inr text | Inl e \<Rightarrow> Inl AllProvidersFailed)" for calls
      using a qn qin others by (intro fallback_single) (auto simp: fallbackOrder_def)
    show ?thesis
      using a fb by (auto simp: generateAIInsights_def split: sum.splits)
  qed
  have B: "generateAIInsights env prompt = ([], Inl NoProviderConfigured)" if n: "\<not> hasAnyProvider env"
  proof -
    from n have nk: "\<not> has_key env r" for r using hasAnyProvider_iff by blast
    have "fallback env fallbackOrder [] = ([], Inl NoProviderConfigured)"
      using n nk by (simp add: fallback_none)
    then show ?thesis
      using nk nc by (simp add: generateAIInsights_def split: option.splits provider_entry.splits)
  qed
  have C: "hasAnyProvider env \<and>
      (\<forall>r. has_key env r \<longrightarrow> r \<in> set (fst (generateAIInsights env prompt)) \<and> isl (call env r))"
    if f: "snd (generateAIInsights env prompt) = Inl AllProvidersFailed"
  proof -
    obtain cs where g: "generateAIInsights env prompt = (cs, Inl AllProvidersFailed)"
      using f by (cases "generateAIInsights env prompt") auto
    have all: "set fallbackOrder = UNIV"
    proof -
      have "r \<in> set fallbackOrder" for r by (cases r) (simp_all add: fallbackOrder_def)
      then show ?thesis by blast
    qed
    have "hasAnyProvider env \<and> (\<forall>r. has_key env r \<longrightarrow> r \<in> set cs \<and> isl (call env r))"
    proof (cases "\<exists>p. providers (aiProvider env) = Some (Call p)")
      case False
      then have none: "\<forall>p. providers (aiProvider env) \<noteq> Some (Call p)" by blast
      with g have fb: "fallback env fallbackOrder [] = (cs, Inl AllProvidersFailed)"
        by (simp add: generateAIInsights_not_Call [OF none nc])
      have nn: "provider_name r \<noteq> aiProvider env" for r using none by (rule providers_not_Call)
      from fallback_result [OF fb] nn all show ?thesis by (auto split: if_splits)
    next
      case True
      then obtain p where Some: "providers (aiProvider env) = Some (Call p)" ..
      then have pn: "provider_name p = aiProvider env" by (simp add: providers_name)
      have other: "(provider_name r = aiProvider env) = (r = p)" for r
        using pn provider_name_inj [of r p] by auto
      show ?thesis
      proof (cases "has_key env p")
        case False
        with g Some have fb: "fallback env fallbackOrder [] = (cs, Inl AllProvidersFailed)"
          by (simp add: generateAIInsights_def)
        from fallback_result [OF fb] False show ?thesis
          unfolding all other by (auto split: if_splits)
      next
        case True
        with g Some obtain e where ce: "call env p = Inl e"
          and fb: "fallback env fallbackOrder [p] = (cs, Inl AllProvidersFailed)"
          by (auto simp: generateAIInsights_def split: sum.splits)
        from fallback_result [OF fb] have any: "hasAnyProvider env"
          and cs: "set cs = insert p {x. x \<noteq> p \<and> has_key env x}"
          and fl: "\<forall>x. x \<noteq> p \<and> has_key env x \<longrightarrow> isl (call env x)"
          unfolding all other by (auto split: if_splits)
        have "r \<in> set cs \<and> isl (call env r)" if "has_key env r" for r
          using that cs fl ce by (cases "r = p") auto
        with any show ?thesis by blast
      qed
    qed
    with g show ?thesis by simp
  qed
  from A A' B C show ?thesis by blast
qed

text \<open>
  Five configurations: the preferred provider without a key and one other provider that
  answers; the preferred provider failing and one other that answers; an unknown preferred
  name and one provider that answers; no key at all; two keys and every call failing.
\<close>

lemma gateway_configurations:
  "generateAIInsights (sample_ai (Some ''Gemini'') None None (Some ''sk-1'') [OpenAI]) ''q'' =
     ([OpenAI], Inr ''answer'') \<and>
   generateAIInsights (sample_ai (Some ''gemini'') None (Some ''g-1'') (Some ''sk-1'') [OpenAI]) ''q'' =
     ([Gemini, OpenAI], Inr ''answer'') \<and>
   generateAIInsights (sample_ai (Some ''other'') None (Some ''g-1'') None [Gemini]) ''q'' =
     ([Gemini], Inr ''answer'') \<and>
   generateAIInsights (sample_ai None None None None [HuggingFace, Gemini, OpenAI]) ''q'' =
     ([], Inl NoProviderConfigured) \<and>
   generateAIInsights (sample_ai (Some ''__proto__'') None None None []) ''q'' =
     ([], Inl NoProviderConfigured) \<and>
   generateAIInsights (sample_ai (Some ''openai'') (Some ''hf-1'') None (Some ''sk-1'') []) ''q'' =
     ([OpenAI, HuggingFace], Inl AllProvidersFailed)"
  by (simp add: ai_defs)

text \<open>
  Claim C4 at two failing inputs. With \<open>AI_PROVIDER\<close> set to \<open>constructor\<close>,
  \<open>providers[aiProvider]\<close> is the function \<open>Object\<close> that the object literal
  inherits: no key check applies to it, and its call returns the prompt. When no provider
  has a credential the gateway does not raise \<open>NoProviderConfigured\<close> but returns the
  prompt; when Gemini alone has a credential and answers, Gemini is not called and the
  prompt is returned in place of its answer.
\<close>

theorem generateAIInsights_constructor_returns_prompt:
  "generateAIInsights (sample_ai (Some ''constructor'') None None None []) ''What is the total?'' =
     ([], Inr ''What is the total?'') \<and>
   generateAIInsights (sample_ai (Some ''constructor'') None (Some ''g-1'') None [Gemini])
       ''What is the total?'' =
     ([], Inr ''What is the total?'') \<and>
   call (sample_ai (Some ''constructor'') None (Some ''g-1'') None [Gemini]) Gemini = Inr ''answer''"
  by (simp add: ai_defs)

section \<open>Properties of the chat operation\<close>

text \<open>
  Claim C6, as amended. A chat request whose question is the empty string or consists of
  white space only is answered with status 400 and no provider is called, whatever the
  provider configuration and the stored tables are; the message is
  \<open>Question is required\<close> when the request carries a file identifier, and
  \<open>File ID is required\<close> when it does not.
\<close>

theorem chat_blank_question:
  assumes "question req = VStr q" and "trim q = []"
  shows "c_status (chat env req) = 400 \<and> provider_calls (chat env req) = [] \<and>
         c_message (chat env req) =
           (if truthy (fileId req) then ''Question is required'' else ''File ID is required'')"
  using assms by (simp add: chat_def)

text \<open>
  A question of three blanks about a stored table.
\<close>

theorem chat_blank_question_witness:
  "c_status (chat sample_chat_env \<lparr> fileId = VStr ''t1'', question = VStr ''   '', c_user = ''u1'' \<rparr>) = 400 \<and>
   provider_calls (chat sample_chat_env \<lparr> fileId = VStr ''t1'', question = VStr ''   '', c_user = ''u1'' \<rparr>) = [] \<and>
   c_message (chat sample_chat_env \<lparr> fileId = VStr ''t1'', question = VStr ''   '', c_user = ''u1'' \<rparr>) =
     ''Question is required''"
  using chat_blank_question
    [of "\<lparr> fileId = VStr ''t1'', question = VStr ''   '', c_user = ''u1'' \<rparr>" "''   ''" sample_chat_env]
  by (simp add: trim_def is_ws_def)

text \<open>
  Claim C6 as stated fails for a request with an empty question and no file identifier:
  the check of the identifier comes first, and the message is not
  \<open>Question is required\<close>.
\<close>

theorem chat_missing_fileId_counterexample:
  "c_status (chat sample_chat_env \<lparr> fileId = VUndef, question = VStr '''', c_user = ''u1'' \<rparr>) = 400 \<and>
   c_message (chat sample_chat_env \<lparr> fileId = VUndef, question = VStr '''', c_user = ''u1'' \<rparr>) =
     ''File ID is required'' \<and>
   c_message (chat sample_chat_env \<lparr> fileId = VUndef, question = VStr '''', c_user = ''u1'' \<rparr>) \<noteq>
     ''Question is required''"
  by (simp add: chat_def)

lemma chat_answers:
  "chat sample_chat_env \<lparr> fileId = VStr ''t1'', question = VStr ''total?'', c_user = ''u1'' \<rparr> =
     \<lparr> c_status = 200, c_message = ''answer'', provider_calls = [HuggingFace] \<rparr>"
  by (simp add: chat_def sample_chat_env_def sample_table_def scenario_data_def scenario_columns_def
      ai_defs stats_defs parse_defs)



end
